theory Spec2Isabelle
  imports Main "HOL-Library.Sublist"
begin

section \<open>Strings\<close>

text \<open>
  A JavaScript string is a sequence of UTF-16 code units.  A code unit is modelled by its
  numeric value, so Hebrew letters (U+05D0 .. U+05EA) and the Unicode white space
  characters are available; \<open>js\<close> embeds an ASCII literal.
\<close>

type_synonym jschar = nat
type_synonym jsstring = "jschar list"

definition js :: "string \<Rightarrow> jsstring" where
  "js s = map of_char s"

text \<open>The character class \<open>\s\<close> of a JavaScript regular expression.\<close>

definition isSpace :: "jschar \<Rightarrow> bool" where
  "isSpace c = (c \<in> {9, 10, 11, 12, 13, 32, 160, 5760, 8232, 8233, 8239, 8287, 12288, 65279}
                \<or> (8192 \<le> c \<and> c \<le> 8202))"

text \<open>\<open>String.prototype.startsWith\<close> and one-argument \<open>substring\<close>.\<close>

fun startsWith :: "jsstring \<Rightarrow> jsstring \<Rightarrow> bool" where
  "startsWith s [] = True"
| "startsWith [] (p # ps) = False"
| "startsWith (c # cs) (p # ps) = (c = p \<and> startsWith cs ps)"

definition substring_from :: "jsstring \<Rightarrow> nat \<Rightarrow> jsstring" where
  "substring_from s n = drop n s"

section \<open>Phone normalization (server/storage.ts, normalizePhone)\<close>

text \<open>
  \<^verbatim>\<open>let normalized = phone.replace(/[-\s()]/g, '');\<close> removes every code unit of the
  class; the two prefix branches and the nine-digit branch follow the source in order.
\<close>

definition normalizePhone :: "jsstring \<Rightarrow> jsstring" where
  "normalizePhone phone =
     (let normalized = filter (\<lambda>c. \<not> (c = 45 \<or> isSpace c \<or> c = 40 \<or> c = 41)) phone;
          normalized = (if startsWith normalized (js ''+972'')
                          then js ''0'' @ substring_from normalized 4
                        else if startsWith normalized (js ''972'')
                          then js ''0'' @ substring_from normalized 3
                        else normalized);
          normalized = (if length normalized = 9 \<and> \<not> startsWith normalized (js ''0'')
                          then js ''0'' @ normalized
                        else normalized)
      in normalized)"

text \<open>The three statements of \<open>normalizePhone\<close>, named for the proofs.\<close>

definition phoneSeparator :: "jschar \<Rightarrow> bool" where
  "phoneSeparator c = (c = 45 \<or> isSpace c \<or> c = 40 \<or> c = 41)"

definition collapsePrefix :: "jsstring \<Rightarrow> jsstring" where
  "collapsePrefix n =
     (if startsWith n (js ''+972'') then js ''0'' @ substring_from n 4
      else if startsWith n (js ''972'') then js ''0'' @ substring_from n 3
      else n)"

definition prependZero :: "jsstring \<Rightarrow> jsstring" where
  "prependZero n = (if length n = 9 \<and> \<not> startsWith n (js ''0'') then js ''0'' @ n else n)"

section \<open>JavaScript values and strings\<close>

text \<open>
  The optional string parameters of the storage functions (\<^verbatim>\<open>mobile?: string\<close>) are
  \<open>jsstring option\<close>, \<open>None\<close> for \<^verbatim>\<open>undefined\<close> or \<^verbatim>\<open>null\<close>.  A value is truthy when it is
  present and not the empty string, which is what \<^verbatim>\<open>if (mobile)\<close> tests.
\<close>

definition truthy :: "jsstring option \<Rightarrow> bool" where
  "truthy v = (case v of None \<Rightarrow> False | Some s \<Rightarrow> s \<noteq> [])"

text \<open>\<^verbatim>\<open>String.prototype.includes\<close>: the pattern starts at some position of the string.\<close>

fun str_includes :: "jsstring \<Rightarrow> jsstring \<Rightarrow> bool" where
  "str_includes [] p = (p = [])"
| "str_includes (c # cs) p = (startsWith (c # cs) p \<or> str_includes cs p)"

text \<open>\<^verbatim>\<open>String.prototype.trim\<close> removes the white space of \<open>isSpace\<close> at both ends.\<close>

definition jsTrim :: "jsstring \<Rightarrow> jsstring" where
  "jsTrim s = rev (dropWhile isSpace (rev (dropWhile isSpace s)))"

section \<open>The relational store\<close>

text \<open>
  The functions of \<^verbatim>\<open>server/storage.ts\<close> run SQL through a query builder.  A table is the
  list of its rows in the order in which the database scans them; a query without
  \<^verbatim>\<open>ORDER BY\<close> returns the selected rows in that order.  SQL conditions have three truth
  values (\<open>None\<close> is \<^verbatim>\<open>NULL\<close>), and \<^verbatim>\<open>WHERE\<close> keeps the rows whose condition is true.
\<close>

type_synonym sqlbool = "bool option"

definition sql_or :: "sqlbool \<Rightarrow> sqlbool \<Rightarrow> sqlbool" where
  "sql_or a b = (if a = Some True \<or> b = Some True then Some True
                 else if a = None \<or> b = None then None else Some False)"

definition sql_and :: "sqlbool \<Rightarrow> sqlbool \<Rightarrow> sqlbool" where
  "sql_and a b = (if a = Some False \<or> b = Some False then Some False
                  else if a = None \<or> b = None then None else Some True)"

definition sql_eq :: "'a option \<Rightarrow> 'a option \<Rightarrow> sqlbool" where
  "sql_eq a b = (case a of None \<Rightarrow> None
                 | Some x \<Rightarrow> (case b of None \<Rightarrow> None | Some y \<Rightarrow> Some (x = y)))"

text \<open>
  The SQL function \<^verbatim>\<open>REPLACE(string, from, to)\<close> replaces every occurrence of \<open>from\<close>, scanning
  from the left; an empty \<open>from\<close> changes nothing, and a \<^verbatim>\<open>NULL\<close> string stays \<^verbatim>\<open>NULL\<close>.
\<close>

fun replaceAll :: "jsstring \<Rightarrow> jsstring \<Rightarrow> jsstring \<Rightarrow> jsstring" where
  "replaceAll [] old new = []"
| "replaceAll (c # cs) old new =
     (if old \<noteq> [] \<and> startsWith (c # cs) old
      then new @ replaceAll (drop (length old) (c # cs)) old new
      else c # replaceAll cs old new)"

definition sql_replace :: "jsstring option \<Rightarrow> jsstring \<Rightarrow> jsstring \<Rightarrow> jsstring option" where
  "sql_replace s old new = map_option (\<lambda>t. replaceAll t old new) s"

definition sql_where :: "('r \<Rightarrow> sqlbool) \<Rightarrow> 'r list \<Rightarrow> 'r list" where
  "sql_where cond rows = filter (\<lambda>r. cond r = Some True) rows"

subsection \<open>Candidates\<close>

text \<open>
  The columns of the candidates table that the modelled functions read or write.  The table
  declaration that this version of \<^verbatim>\<open>storage.ts\<close> imports is not among the sources
  (\<^verbatim>\<open>shared/schema.ts\<close> is an older version without \<^verbatim>\<open>mobile\<close>, \<^verbatim>\<open>nationalId\<close>,
  \<^verbatim>\<open>candidateNumber\<close> or \<^verbatim>\<open>cvContent\<close>), so nullability follows the use in
  \<^verbatim>\<open>storage.ts\<close>: first name, last name and email are strings, the other columns may be
  \<^verbatim>\<open>NULL\<close>.  \<open>insertCandidate\<close> is the type \<^verbatim>\<open>InsertCandidate\<close>; a stored row adds the
  generated id and the two timestamps.  The field \<^verbatim>\<open>id\<close> is named \<open>cand_id\<close>.
\<close>

record insertCandidate =
  firstName :: jsstring
  lastName :: jsstring
  email :: jsstring
  mobile :: "jsstring option"
  nationalId :: "jsstring option"
  city :: "jsstring option"
  profession :: "jsstring option"
  cvContent :: "jsstring option"
  cvPath :: "jsstring option"
  "notes" :: "jsstring option"
  recruitmentSource :: "jsstring option"
  candidateNumber :: "int option"

record candidate = insertCandidate +
  cand_id :: jsstring
  createdAt :: nat
  updatedAt :: nat

text \<open>
  Lower-casing (\<^verbatim>\<open>LOWER\<close> in SQL, \<^verbatim>\<open>toLowerCase\<close> in JavaScript) is a parameter of the
  functions that use it, so the theorems hold for every such function.  \<open>asciiLower\<close>, which
  agrees with both on ASCII text, instantiates the parameter where a concrete input is
  evaluated.
\<close>

definition asciiLower :: "jsstring \<Rightarrow> jsstring" where
  "asciiLower s = map (\<lambda>c. if 65 \<le> c \<and> c \<le> 90 then c + 32 else c) s"

subsection \<open>findCandidateByContactInfo (server/storage.ts)\<close>

text \<open>
  The stored side of the mobile comparison is the SQL expression
  \<^verbatim>\<open>REPLACE(REPLACE(REPLACE(mobile, '-', ''), ' ', ''), '+972', '0')\<close>.
\<close>

definition storedMobileNormalized :: "candidate \<Rightarrow> jsstring option" where
  "storedMobileNormalized c =
     sql_replace (sql_replace (sql_replace (mobile c) (js ''-'') []) (js '' '') [])
                 (js ''+972'') (js ''0'')"

text \<open>
  The conditions are collected in the order mobile, email, national id, joined with
  \<^verbatim>\<open>OR\<close> by \<^verbatim>\<open>reduce\<close>, and the first row of the unordered query is returned.  The email
  test \<^verbatim>\<open>email && email !== '' && !email.includes('temp.local')\<close> is kept as written.
\<close>

definition findCandidateByContactInfo ::
  "(jsstring \<Rightarrow> jsstring) \<Rightarrow> candidate list
     \<Rightarrow> jsstring option \<Rightarrow> jsstring option \<Rightarrow> jsstring option \<Rightarrow> candidate option" where
  "findCandidateByContactInfo sqlLower rows mobileArg emailArg nationalIdArg =
     (if \<not> truthy mobileArg \<and> \<not> truthy emailArg \<and> \<not> truthy nationalIdArg then None
      else
        let conditions =
              (case mobileArg of
                 Some m \<Rightarrow>
                   if m \<noteq> []
                   then [\<lambda>c. sql_eq (storedMobileNormalized c) (Some (normalizePhone m))]
                   else []
               | None \<Rightarrow> [])
              @ (case emailArg of
                   Some e \<Rightarrow>
                     if e \<noteq> [] \<and> e \<noteq> [] \<and> \<not> str_includes e (js ''temp.local'')
                     then [\<lambda>c. sql_eq (Some (sqlLower (email c))) (Some (sqlLower e))]
                     else []
                 | None \<Rightarrow> [])
              @ (case nationalIdArg of
                   Some n \<Rightarrow> if n \<noteq> [] then [\<lambda>c. sql_eq (nationalId c) (Some n)] else []
                 | None \<Rightarrow> [])
        in case conditions of
             [] \<Rightarrow> None
           | first # rest \<Rightarrow>
               let whereCondition = foldl (\<lambda>acc condition. \<lambda>c. sql_or (acc c) (condition c)) first rest
               in (case sql_where whereCondition rows of
                     [] \<Rightarrow> None
                   | candidate # _ \<Rightarrow> Some candidate))"

text \<open>
  The matching policy in the words of the specification: equal mobiles after
  \<open>normalizePhone\<close> on both sides, or equal emails after lower-casing, or equal national
  ids.  A query key takes part when it is non-empty, and the email when it does not contain
  the placeholder marker \<^verbatim>\<open>temp.local\<close>.
\<close>

definition contactMatch ::
  "(jsstring \<Rightarrow> jsstring) \<Rightarrow> jsstring option \<Rightarrow> jsstring option \<Rightarrow> jsstring option
     \<Rightarrow> candidate \<Rightarrow> bool" where
  "contactMatch sqlLower mobileArg emailArg nationalIdArg c =
     ((case mobileArg of
         Some m \<Rightarrow> m \<noteq> [] \<and> map_option normalizePhone (mobile c) = Some (normalizePhone m)
       | None \<Rightarrow> False)
      \<or> (case emailArg of
            Some e \<Rightarrow> e \<noteq> [] \<and> \<not> str_includes e (js ''temp.local'')
                       \<and> sqlLower (email c) = sqlLower e
          | None \<Rightarrow> False)
      \<or> (case nationalIdArg of
            Some n \<Rightarrow> n \<noteq> [] \<and> nationalId c = Some n
          | None \<Rightarrow> False))"

text \<open>The same policy with the stored mobile normalized as the query does it.\<close>

definition storedMatch ::
  "(jsstring \<Rightarrow> jsstring) \<Rightarrow> jsstring option \<Rightarrow> jsstring option \<Rightarrow> jsstring option
     \<Rightarrow> candidate \<Rightarrow> bool" where
  "storedMatch sqlLower mobileArg emailArg nationalIdArg c =
     ((case mobileArg of
         Some m \<Rightarrow> m \<noteq> [] \<and> storedMobileNormalized c = Some (normalizePhone m)
       | None \<Rightarrow> False)
      \<or> (case emailArg of
            Some e \<Rightarrow> e \<noteq> [] \<and> \<not> str_includes e (js ''temp.local'')
                       \<and> sqlLower (email c) = sqlLower e
          | None \<Rightarrow> False)
      \<or> (case nationalIdArg of
            Some n \<Rightarrow> n \<noteq> [] \<and> nationalId c = Some n
          | None \<Rightarrow> False))"

subsection \<open>Jobs, job applications and candidate events\<close>

text \<open>
  The columns used by the modelled functions.  The id fields are named \<open>job_id\<close> and
  \<open>app_id\<close>, the notes of an application \<open>app_notes\<close>.  The status of an application is the
  string of the database enumeration; the enumeration used by this version of
  \<^verbatim>\<open>storage.ts\<close> (with \<^verbatim>\<open>interview_scheduled\<close>) is not among the sources, so no value is
  rejected.  An application refers to a candidate and a job through nullable foreign keys.
\<close>

record job =
  job_id :: jsstring
  title :: jsstring
  description :: jsstring
  job_createdAt :: nat

record insertJobApplication =
  candidateId :: "jsstring option"
  jobId :: "jsstring option"
  status :: "jsstring option"
  interviewDate :: "nat option"
  app_notes :: "jsstring option"
  clientFeedback :: "jsstring option"

record jobApplication = insertJobApplication +
  app_id :: jsstring
  appliedAt :: "nat option"

record candidateEvent =
  event_candidateId :: "jsstring option"
  event_description :: "jsstring option"
  event_createdAt :: nat

record database =
  candidates :: "candidate list"
  jobs :: "job list"
  jobApplications :: "jobApplication list"
  candidateEvents :: "candidateEvent list"

text \<open>
  What the storage functions throw: the duplicate error of \<open>createJobApplication\<close>, an
  \<^verbatim>\<open>Error\<close> with a message and the property \<^verbatim>\<open>existingApplication\<close> (the existing row with
  \<^verbatim>\<open>alreadyExisted: true\<close>), and an error raised by the database.
\<close>

datatype error =
    DuplicateApplicationError jsstring jobApplication bool
  | DatabaseError jsstring

text \<open>
  What \<open>createJobApplication\<close> returns: the inserted row, or the object
  \<^verbatim>\<open>{...updatedApplication, alreadyExisted, originalAppliedAt, originalStatus, wasUpdated}\<close>.
\<close>

record existingApplicationWithDetails =
  updatedApplication :: "jobApplication option"
  alreadyExisted :: bool
  originalAppliedAt :: "nat option"
  originalStatus :: "jsstring option"
  wasUpdated :: bool

datatype createdApplication =
    NewApplication jobApplication
  | ExistingApplication existingApplicationWithDetails

text \<open>\<^verbatim>\<open>ORDER BY key DESC\<close>, and \<^verbatim>\<open>LIMIT\<close> with \<^verbatim>\<open>OFFSET\<close>.\<close>

definition sql_orderBy_desc :: "('r \<Rightarrow> nat) \<Rightarrow> 'r list \<Rightarrow> 'r list" where
  "sql_orderBy_desc key rows = rev (sort_key key rows)"

definition sql_limit_offset :: "nat \<Rightarrow> nat \<Rightarrow> 'r list \<Rightarrow> 'r list" where
  "sql_limit_offset limit offset rows = take limit (drop offset rows)"

subsection \<open>createCandidate, deleteCandidate, updateCandidate, getCandidates\<close>

text \<open>
  \<open>createCandidate\<close> reads the highest candidate number among the rows that have one
  (\<^verbatim>\<open>ORDER BY candidateNumber DESC LIMIT 1\<close>), takes
  \<^verbatim>\<open>(lastCandidate[0].candidateNumber || 99) + 1\<close>, or 100 when there is none, and inserts the
  row.  The new id and the time of the insertion are inputs.  The insertion fails when the
  email is already stored (the column is declared unique in \<^verbatim>\<open>shared/schema.ts\<close>).
\<close>

definition createCandidate ::
  "jsstring \<Rightarrow> nat \<Rightarrow> insertCandidate \<Rightarrow> database \<Rightarrow> error + (candidate \<times> database)" where
  "createCandidate newId now candidate db =
     (let lastCandidate =
            take 1 (rev (sort (concat (map (\<lambda>c. case candidateNumber c of
                                               None \<Rightarrow> [] | Some n \<Rightarrow> [n]) (candidates db)))));
          nextNumber = (case lastCandidate of
                          [] \<Rightarrow> 100
                        | n # _ \<Rightarrow> (if n = 0 then 99 else n) + 1);
          candidateWithNumber = candidate\<lparr>candidateNumber := Some nextNumber\<rparr>
      in if \<exists>c\<in>set (candidates db). email c = email candidateWithNumber
         then Inl (DatabaseError (js ''duplicate key value violates unique constraint''))
         else
           let newCandidate =
                 insertCandidate.extend candidateWithNumber
                   (candidate.fields newId now now)
           in Inr (newCandidate, db\<lparr>candidates := candidates db @ [newCandidate]\<rparr>))"

definition deleteCandidate :: "jsstring \<Rightarrow> database \<Rightarrow> database" where
  "deleteCandidate cid db = db\<lparr>candidates := filter (\<lambda>c. cand_id c \<noteq> cid) (candidates db)\<rparr>"

text \<open>
  \<open>updateCandidate\<close> applies the \<^verbatim>\<open>SET\<close> clause, given as a function on the row, and the
  new \<^verbatim>\<open>updatedAt\<close> to the rows with the given id.
\<close>

definition updateCandidate ::
  "nat \<Rightarrow> jsstring \<Rightarrow> (candidate \<Rightarrow> candidate) \<Rightarrow> database \<Rightarrow> database" where
  "updateCandidate now cid setClause db =
     db\<lparr>candidates :=
          map (\<lambda>c. if cand_id c = cid then (setClause c)\<lparr>updatedAt := now\<rparr> else c)
              (candidates db)\<rparr>"

text \<open>
  \<open>getCandidates\<close> as it is called with a search string and no date filter.  The operator
  \<^verbatim>\<open>ILIKE\<close> of the database is a parameter.
\<close>

definition sql_ilike_opt :: "(jsstring \<Rightarrow> jsstring \<Rightarrow> bool) \<Rightarrow> jsstring option \<Rightarrow> jsstring \<Rightarrow> sqlbool" where
  "sql_ilike_opt sqlILike text pattern = map_option (\<lambda>t. sqlILike t pattern) text"

definition getCandidates ::
  "(jsstring \<Rightarrow> jsstring \<Rightarrow> bool) \<Rightarrow> nat \<Rightarrow> nat \<Rightarrow> jsstring option \<Rightarrow> database
     \<Rightarrow> candidate list \<times> nat" where
  "getCandidates sqlILike limit offset search db =
     (let pattern = (\<lambda>s. js ''%'' @ s @ js ''%'');
          whereCondition =
            (case search of
               None \<Rightarrow> (\<lambda>c. Some True)
             | Some s \<Rightarrow>
                 if s = [] then (\<lambda>c. Some True)
                 else (\<lambda>c. sql_or
                         (sql_or
                            (sql_ilike_opt sqlILike (Some (firstName c @ js '' '' @ lastName c))
                               (pattern s))
                            (sql_ilike_opt sqlILike (Some (email c)) (pattern s)))
                         (sql_ilike_opt sqlILike (profession c) (pattern s))));
          candidateResults =
            sql_limit_offset limit offset
              (sql_orderBy_desc createdAt (sql_where whereCondition (candidates db)));
          totalResults = length (sql_where whereCondition (candidates db))
      in (candidateResults, totalResults))"

definition getJobs :: "nat \<Rightarrow> nat \<Rightarrow> database \<Rightarrow> job list" where
  "getJobs limit offset db = sql_limit_offset limit offset (sql_orderBy_desc job_createdAt (jobs db))"

subsection \<open>createJobApplication (server/storage.ts)\<close>

text \<open>
  An existing application for the same candidate and job is updated when the requested status
  is \<^verbatim>\<open>interview_scheduled\<close>, and is otherwise reported by the duplicate error.  Without one
  the row is inserted, with the default status \<^verbatim>\<open>submitted\<close>; the insertion fails when a
  foreign key refers to no row.  \<^verbatim>\<open>const [updatedApplication] = ... .returning()\<close> is the
  first updated row.
\<close>

definition duplicateMessage :: jsstring where
  "duplicateMessage =
     [1492, 1502, 1493, 1506, 1502, 1491, 32, 1499, 1489, 1512, 32, 1492, 1490, 1497, 1513, 32,
      1502, 1493, 1506, 1502, 1491, 1493, 1514, 32, 1500, 1502, 1513, 1512, 1492, 32, 1494, 1493]"

definition createJobApplication ::
  "jsstring \<Rightarrow> nat \<Rightarrow> insertJobApplication \<Rightarrow> database
     \<Rightarrow> error + (createdApplication \<times> database)" where
  "createJobApplication newId now application db =
     (let existing =
            sql_where (\<lambda>a. sql_and (sql_eq (candidateId a) (candidateId application))
                                   (sql_eq (jobId a) (jobId application)))
                      (jobApplications db)
      in case existing of
           existing0 # _ \<Rightarrow>
             if status application = Some (js ''interview_scheduled'')
             then
               let rows' = map (\<lambda>a. if app_id a = app_id existing0
                                       then a\<lparr>status := Some (js ''interview_scheduled'')\<rparr>
                                       else a) (jobApplications db);
                   returned = filter (\<lambda>a. app_id a = app_id existing0) rows';
                   existingApplicationWithDetails =
                     \<lparr>updatedApplication = (case returned of [] \<Rightarrow> None | u # _ \<Rightarrow> Some u),
                      alreadyExisted = True,
                      originalAppliedAt = appliedAt existing0,
                      originalStatus = status existing0,
                      wasUpdated = True\<rparr>
               in Inr (ExistingApplication existingApplicationWithDetails,
                       db\<lparr>jobApplications := rows'\<rparr>)
             else Inl (DuplicateApplicationError duplicateMessage existing0 True)
         | [] \<Rightarrow>
             if (case candidateId application of
                   None \<Rightarrow> False | Some c \<Rightarrow> c \<notin> cand_id ` set (candidates db))
                \<or> (case jobId application of
                      None \<Rightarrow> False | Some j \<Rightarrow> j \<notin> job_id ` set (jobs db))
             then Inl (DatabaseError (js ''violates foreign key constraint''))
             else
               let newApplication =
                     insertJobApplication.extend
                       (application\<lparr>status := (case status application of
                                                  None \<Rightarrow> Some (js ''submitted'') | Some st \<Rightarrow> Some st)\<rparr>)
                       (jobApplication.fields newId (Some now))
               in Inr (NewApplication newApplication,
                       db\<lparr>jobApplications := jobApplications db @ [newApplication]\<rparr>))"
section \<open>The inbound email pipeline (server/incomingEmailService.ts)\<close>

text \<open>The Hebrew literals of \<open>createCandidateFromEmail\<close>, as UTF-16 code units.\<close>

definition newMailHeader :: jsstring where
  \<comment> \<open>newline, newline, dashes, Hebrew for new mail, dashes, newline, Hebrew for subject, colon, space\<close>
  "newMailHeader =
     [10, 10, 45, 45, 45, 32, 1502, 1497, 1497, 1500, 32, 1495, 1491, 1513, 32, 45, 45, 45,
      10, 1504, 1493, 1513, 1488, 58, 32]"

definition contentLabel :: jsstring where
  \<comment> \<open>newline, Hebrew for content, colon, newline\<close>
  "contentLabel =
     [10, 1514, 1493, 1499, 1503, 58, 10]"

definition defaultFirstName :: jsstring where
  \<comment> \<open>Hebrew for candidate\<close>
  "defaultFirstName =
     [1502, 1493, 1506, 1502, 1491]"

definition defaultLastName :: jsstring where
  \<comment> \<open>Hebrew for new\<close>
  "defaultLastName =
     [1495, 1491, 1513]"

definition cityNotSpecified :: jsstring where
  \<comment> \<open>Hebrew for not specified\<close>
  "cityNotSpecified =
     [1500, 1488, 32, 1510, 1493, 1497, 1503]"

definition professionFromEmail :: jsstring where
  \<comment> \<open>Hebrew for application from mail\<close>
  "professionFromEmail =
     [1502, 1493, 1506, 1502, 1491, 1493, 1514, 32, 1502, 1502, 1497, 1497, 1500]"

definition originalMailHeader :: jsstring where
  \<comment> \<open>dashes, Hebrew for original mail, dashes, newline, Hebrew for subject, colon, space\<close>
  "originalMailHeader =
     [45, 45, 45, 32, 1502, 1497, 1497, 1500, 32, 1502, 1511, 1493, 1512, 1497, 32, 45, 45,
      45, 10, 1504, 1493, 1513, 1488, 58, 32]"

definition incomingMailSource :: jsstring where
  \<comment> \<open>Hebrew for incoming mail\<close>
  "incomingMailSource =
     [1502, 1497, 1497, 1500, 32, 1504, 1499, 1504, 1505]"

definition autoApplicationNote :: jsstring where
  \<comment> \<open>Hebrew for automatic application from incoming mail, newline, Hebrew for job code, colon, space\<close>
  "autoApplicationNote =
     [1502, 1493, 1506, 1502, 1491, 1493, 1514, 32, 1488, 1493, 1496, 1493, 1502, 1496, 1497,
      1514, 32, 1502, 1502, 1497, 1497, 1500, 32, 1504, 1499, 1504, 1505, 10, 1511, 1493,
      1491, 32, 1502, 1513, 1512, 1492, 58, 32]"

definition mailSubjectLabel :: jsstring where
  \<comment> \<open>newline, Hebrew for mail subject, colon, space\<close>
  "mailSubjectLabel =
     [10, 1504, 1493, 1513, 1488, 32, 1492, 1502, 1497, 1497, 1500, 58, 32]"

text \<open>
  \<^verbatim>\<open>ParsedCandidate\<close>; its fields \<^verbatim>\<open>firstName\<close>, \<^verbatim>\<open>lastName\<close> and \<^verbatim>\<open>email\<close> carry a prime
  here.
\<close>

record parsedCandidate =
  firstName' :: "jsstring option"
  lastName' :: "jsstring option"
  email' :: "jsstring option"
  phone :: "jsstring option"
  jobCode :: "jsstring option"
  originalSubject :: "jsstring option"
  originalBody :: "jsstring option"

text \<open>
  \<^verbatim>\<open>a || b\<close> for a string \<open>b\<close> and for a nullable \<open>b\<close>, and the conversion of a value inside
  a template literal.
\<close>

definition orElse :: "jsstring option \<Rightarrow> jsstring \<Rightarrow> jsstring" where
  "orElse a b = (case a of None \<Rightarrow> b | Some s \<Rightarrow> if s \<noteq> [] then s else b)"

definition orElseNullable :: "jsstring option \<Rightarrow> jsstring option \<Rightarrow> jsstring option" where
  "orElseNullable a b = (if truthy a then a else b)"

definition interpolate :: "jsstring option \<Rightarrow> jsstring" where
  "interpolate v = (case v of None \<Rightarrow> js ''undefined'' | Some s \<Rightarrow> s)"

text \<open>
  The notes written on a merge:
  \<^verbatim>\<open>`${existingCandidate.notes || ''}\n\n--- ... ---\n...: ${subject}\n...:\n${body}`.trim()\<close>.
\<close>

definition mergedNotes :: "candidate \<Rightarrow> parsedCandidate \<Rightarrow> jsstring" where
  "mergedNotes existingCandidate candidateData =
     jsTrim (orElse (notes existingCandidate) [] @ newMailHeader
             @ interpolate (originalSubject candidateData) @ contentLabel
             @ interpolate (originalBody candidateData))"

text \<open>
  \<open>createCandidateFromEmail\<close>.  \<^verbatim>\<open>candidates.some(c => c.email === email)\<close> followed by
  \<^verbatim>\<open>candidates.find(...)\<close> with the same test is one \<open>List.find\<close>.  An error of the candidate
  step is caught by the outer \<^verbatim>\<open>try\<close> and leaves the database as it was; an error of
  \<open>createJobApplication\<close> is caught by the inner one and keeps the candidate step.
\<close>

definition createCandidateFromEmail ::
  "(jsstring \<Rightarrow> jsstring \<Rightarrow> bool) \<Rightarrow> jsstring \<Rightarrow> jsstring \<Rightarrow> nat \<Rightarrow> parsedCandidate
     \<Rightarrow> database \<Rightarrow> database" where
  "createCandidateFromEmail sqlILike newCandidateId newApplicationId now candidateData db =
     (let existingCandidates = fst (getCandidates sqlILike 100 0 (email' candidateData) db);
          candidateStep =
            (case List.find (\<lambda>c. Some (email c) = email' candidateData) existingCandidates of
               Some existingCandidate \<Rightarrow>
                 Inr (cand_id existingCandidate,
                      updateCandidate now (cand_id existingCandidate)
                        (\<lambda>c. c\<lparr>firstName := orElse (firstName' candidateData)
                                                   (firstName existingCandidate),
                                lastName := orElse (lastName' candidateData)
                                                  (lastName existingCandidate),
                                mobile := orElseNullable (phone candidateData)
                                                         (mobile existingCandidate),
                                notes := Some (mergedNotes existingCandidate candidateData)\<rparr>)
                        db)
             | None \<Rightarrow>
                 (case email' candidateData of
                    None \<Rightarrow> Inl (DatabaseError (js ''null value violates not-null constraint''))
                  | Some e \<Rightarrow>
                      (case createCandidate newCandidateId now
                              \<lparr>firstName = orElse (firstName' candidateData) defaultFirstName,
                               lastName = orElse (lastName' candidateData) defaultLastName,
                               email = e,
                               mobile = phone candidateData,
                               nationalId = None,
                               city = Some cityNotSpecified,
                               profession = (if truthy (jobCode candidateData)
                                             then Some professionFromEmail else None),
                               cvContent = None,
                               cvPath = None,
                               notes = Some (originalMailHeader
                                             @ interpolate (originalSubject candidateData)
                                             @ contentLabel
                                             @ interpolate (originalBody candidateData)),
                               recruitmentSource = Some incomingMailSource,
                               candidateNumber = None\<rparr> db of
                         Inl err \<Rightarrow> Inl err
                       | Inr (newCandidate, db') \<Rightarrow> Inr (cand_id newCandidate, db'))))
      in case candidateStep of
           Inl err \<Rightarrow> db
         | Inr (candidateId', db1) \<Rightarrow>
             (case jobCode candidateData of
                None \<Rightarrow> db1
              | Some code \<Rightarrow>
                  if code = [] then db1
                  else
                    (case List.find (\<lambda>job. job_id job = code \<or> str_includes (title job) code
                                            \<or> str_includes (description job) code)
                                    (getJobs 100 0 db1) of
                       None \<Rightarrow> db1
                     | Some matchingJob \<Rightarrow>
                         (case createJobApplication newApplicationId now
                                 \<lparr>candidateId = Some candidateId',
                                  jobId = Some (job_id matchingJob),
                                  status = Some (js ''submitted''),
                                  interviewDate = None,
                                  app_notes = Some (autoApplicationNote @ code @ mailSubjectLabel
                                                    @ interpolate (originalSubject candidateData)),
                                  clientFeedback = None\<rparr> db1 of
                            Inl err \<Rightarrow> db1
                          | Inr (_, db2) \<Rightarrow> db2))))"

section \<open>The handler of POST /api/job-applications (server/routes.ts)\<close>

text \<open>
  The handler parses the body with the insert schema (a parameter), calls
  \<open>createJobApplication\<close> and answers 201 with the application, 400 on a validation error and
  500 with a fixed message on every other error.
\<close>

datatype responseBody =
    ApplicationJson createdApplication
  | MessageJson jsstring
  | ValidationJson jsstring "jsstring list"

record response =
  statusCode :: nat
  body :: responseBody

definition postJobApplications ::
  "('req \<Rightarrow> jsstring list + insertJobApplication) \<Rightarrow> jsstring \<Rightarrow> nat \<Rightarrow> 'req \<Rightarrow> database
     \<Rightarrow> response \<times> database" where
  "postJobApplications parse newId now reqBody db =
     (case parse reqBody of
        Inl zodErrors \<Rightarrow>
          (\<lparr>statusCode = 400, body = ValidationJson (js ''Validation error'') zodErrors\<rparr>, db)
      | Inr applicationData \<Rightarrow>
          (case createJobApplication newId now applicationData db of
             Inr (application, db') \<Rightarrow> (\<lparr>statusCode = 201, body = ApplicationJson application\<rparr>, db')
           | Inl err \<Rightarrow>
               (\<lparr>statusCode = 500, body = MessageJson (js ''Failed to create job application'')\<rparr>,
                db)))"

text \<open>A stored candidate with the given id, email, mobile, national id and creation time.\<close>

definition exampleCandidate ::
  "jsstring \<Rightarrow> jsstring \<Rightarrow> jsstring option \<Rightarrow> jsstring option \<Rightarrow> nat \<Rightarrow> candidate" where
  "exampleCandidate cid mail mob nid t =
     \<lparr>firstName = js ''Dana'', lastName = js ''Levi'', email = mail, mobile = mob,
      nationalId = nid, city = None, profession = None, cvContent = None, cvPath = None,
      notes = None, recruitmentSource = None, candidateNumber = None,
      cand_id = cid, createdAt = t, updatedAt = t\<rparr>"

section \<open>Candidate numbering\<close>

text \<open>
  The numbers held by a list of candidates, the number that \<open>createCandidate\<close> assigns next,
  and a run of creation requests one after the other (a failed creation inserts nothing).
\<close>

definition numbersOf :: "candidate list \<Rightarrow> int list" where
  "numbersOf cs = concat (map (\<lambda>c. case candidateNumber c of None \<Rightarrow> [] | Some n \<Rightarrow> [n]) cs)"

definition storedNumbers :: "database \<Rightarrow> int list" where
  "storedNumbers db = numbersOf (candidates db)"

definition nextNumber :: "database \<Rightarrow> int" where
  "nextNumber db =
     (case take 1 (rev (sort (storedNumbers db))) of
        [] \<Rightarrow> 100
      | n # _ \<Rightarrow> (if n = 0 then 99 else n) + 1)"

fun createSequence ::
  "(jsstring \<times> nat \<times> insertCandidate) list \<Rightarrow> database \<Rightarrow> candidate list \<times> database" where
  "createSequence [] db = ([], db)"
| "createSequence ((newId, now, candidate) # requests) db =
     (case createCandidate newId now candidate db of
        Inl err \<Rightarrow> createSequence requests db
      | Inr (newCandidate, db') \<Rightarrow>
          (case createSequence requests db' of
             (created, db'') \<Rightarrow> (newCandidate # created, db'')))"

text \<open>Example requests and databases for the numbering.\<close>

definition exampleInsert :: "jsstring \<Rightarrow> insertCandidate" where
  "exampleInsert mail =
     \<lparr>firstName = js ''Dana'', lastName = js ''Levi'', email = mail, mobile = None,
      nationalId = None, city = None, profession = None, cvContent = None, cvPath = None,
      notes = None, recruitmentSource = None, candidateNumber = None\<rparr>"

definition emptyDatabase :: database where
  "emptyDatabase = \<lparr>candidates = [], jobs = [], jobApplications = [], candidateEvents = []\<rparr>"

definition assignedNumber :: "error + candidate \<times> database \<Rightarrow> int option" where
  "assignedNumber r = (case r of Inl _ \<Rightarrow> None | Inr (c, _) \<Rightarrow> candidateNumber c)"

definition databaseAfter :: "error + 'a \<times> database \<Rightarrow> database \<Rightarrow> database" where
  "databaseAfter r db = (case r of Inl _ \<Rightarrow> db | Inr (_, db') \<Rightarrow> db')"

definition twoCreated :: database where
  "twoCreated =
     databaseAfter
       (createCandidate (js ''id-b'') 2 (exampleInsert (js ''b@example.com''))
          (databaseAfter
             (createCandidate (js ''id-a'') 1 (exampleInsert (js ''a@example.com'')) emptyDatabase)
             emptyDatabase))
       emptyDatabase"

text \<open>The rows that the duplicate check of \<open>createJobApplication\<close> selects.\<close>

definition existingApplications :: "insertJobApplication \<Rightarrow> database \<Rightarrow> jobApplication list" where
  "existingApplications application db =
     sql_where (\<lambda>a. sql_and (sql_eq (candidateId a) (candidateId application))
                            (sql_eq (jobId a) (jobId application)))
               (jobApplications db)"

text \<open>An example database with one candidate, one job and one application.\<close>

definition exampleApplication ::
  "jsstring \<Rightarrow> jsstring \<Rightarrow> jsstring \<Rightarrow> jsstring \<Rightarrow> nat \<Rightarrow> jobApplication" where
  "exampleApplication aid cid jid st t =
     \<lparr>candidateId = Some cid, jobId = Some jid, status = Some st, interviewDate = None,
      app_notes = None, clientFeedback = None, app_id = aid, appliedAt = Some t\<rparr>"

definition exampleRequest :: "jsstring \<Rightarrow> jsstring \<Rightarrow> jsstring \<Rightarrow> insertJobApplication" where
  "exampleRequest cid jid st =
     \<lparr>candidateId = Some cid, jobId = Some jid, status = Some st, interviewDate = None,
      app_notes = None, clientFeedback = None\<rparr>"

definition appliedDatabase :: database where
  "appliedDatabase =
     \<lparr>candidates = [exampleCandidate (js ''c1'') (js ''dana@example.com'') None None 1],
      jobs = [\<lparr>job_id = js ''j1'', title = js ''Java developer'', description = js ''Backend'',
               job_createdAt = 1\<rparr>],
      jobApplications = [exampleApplication (js ''a1'') (js ''c1'') (js ''j1'') (js ''submitted'') 5],
      candidateEvents = []\<rparr>"

text \<open>
  The candidate that \<open>createCandidateFromEmail\<close> treats as existing, and a model of
  \<^verbatim>\<open>ILIKE\<close> (\<open>%\<close> any sequence, \<open>_\<close> any character, backslash escapes) on ASCII text for the
  evaluation of concrete inputs.
\<close>

definition existingCandidateFor ::
  "(jsstring \<Rightarrow> jsstring \<Rightarrow> bool) \<Rightarrow> parsedCandidate \<Rightarrow> database \<Rightarrow> candidate option" where
  "existingCandidateFor sqlILike candidateData db =
     List.find (\<lambda>c. Some (email c) = email' candidateData)
       (fst (getCandidates sqlILike 100 0 (email' candidateData) db))"

fun likeMatch :: "jsstring \<Rightarrow> jsstring \<Rightarrow> bool" where
  "likeMatch [] t = (t = [])"
| "likeMatch (p # ps) t =
     (if p = 37 then
        likeMatch ps t \<or> (case t of [] \<Rightarrow> False | c # ts \<Rightarrow> likeMatch (p # ps) ts)
      else if p = 95 then (case t of [] \<Rightarrow> False | c # ts \<Rightarrow> likeMatch ps ts)
      else if p = 92 then
        (case ps of
           [] \<Rightarrow> False
         | q # qs \<Rightarrow> (case t of [] \<Rightarrow> False | c # ts \<Rightarrow> c = q \<and> likeMatch qs ts))
      else (case t of [] \<Rightarrow> False | c # ts \<Rightarrow> c = p \<and> likeMatch ps ts))"

definition ilikeAscii :: "jsstring \<Rightarrow> jsstring \<Rightarrow> bool" where
  "ilikeAscii text pattern = likeMatch (asciiLower pattern) (asciiLower text)"

text \<open>
  The second half of \<open>createCandidateFromEmail\<close> (the job application for a job code) and the
  profile it inserts for a new candidate, named for the proofs.
\<close>

definition jobStep ::
  "jsstring \<Rightarrow> nat \<Rightarrow> parsedCandidate \<Rightarrow> jsstring \<Rightarrow> database \<Rightarrow> database" where
  "jobStep newApplicationId now candidateData candidateId' db1 =
     (case jobCode candidateData of
        None \<Rightarrow> db1
      | Some code \<Rightarrow>
          if code = [] then db1
          else
            (case List.find (\<lambda>job. job_id job = code \<or> str_includes (title job) code
                                    \<or> str_includes (description job) code)
                            (getJobs 100 0 db1) of
               None \<Rightarrow> db1
             | Some matchingJob \<Rightarrow>
                 (case createJobApplication newApplicationId now
                         \<lparr>candidateId = Some candidateId',
                          jobId = Some (job_id matchingJob),
                          status = Some (js ''submitted''),
                          interviewDate = None,
                          app_notes = Some (autoApplicationNote @ code @ mailSubjectLabel
                                            @ interpolate (originalSubject candidateData)),
                          clientFeedback = None\<rparr> db1 of
                    Inl err \<Rightarrow> db1
                  | Inr (_, db2) \<Rightarrow> db2)))"

definition newProfile :: "parsedCandidate \<Rightarrow> jsstring \<Rightarrow> insertCandidate" where
  "newProfile candidateData e =
     \<lparr>firstName = orElse (firstName' candidateData) defaultFirstName,
      lastName = orElse (lastName' candidateData) defaultLastName,
      email = e,
      mobile = phone candidateData,
      nationalId = None,
      city = Some cityNotSpecified,
      profession = (if truthy (jobCode candidateData) then Some professionFromEmail else None),
      cvContent = None,
      cvPath = None,
      notes = Some (originalMailHeader @ interpolate (originalSubject candidateData)
                    @ contentLabel @ interpolate (originalBody candidateData)),
      recruitmentSource = Some incomingMailSource,
      candidateNumber = None\<rparr>"

text \<open>Example messages and a database with one stored candidate.\<close>

definition exampleMessage ::
  "jsstring option \<Rightarrow> jsstring option \<Rightarrow> jsstring \<Rightarrow> jsstring option \<Rightarrow> parsedCandidate" where
  "exampleMessage fn ln mail tel =
     \<lparr>firstName' = fn, lastName' = ln, email' = Some mail, phone = tel, jobCode = None,
      originalSubject = Some (js ''CV''), originalBody = Some (js ''Hello'')\<rparr>"

definition storedDana :: candidate where
  "storedDana =
     (exampleCandidate (js ''c1'') (js ''dana@example.com'') (Some (js ''0501234567'')) None 1)
       \<lparr>notes := Some (js ''first note'')\<rparr>"

definition danaDatabase :: database where
  "danaDatabase = \<lparr>candidates = [storedDana], jobs = [], jobApplications = [],
                    candidateEvents = []\<rparr>"

section \<open>Indexed search: searchCandidatesByKeywords (server/storage.ts)\<close>

text \<open>
  \<^verbatim>\<open>keywords.split(' ')\<close> and \<^verbatim>\<open>join\<close>.  The function is modelled with the list of queries
  it sends to the database, in order; parsing a query string (\<^verbatim>\<open>to_tsquery\<close>, which can
  fail), the match operator and the rank are parameters.
\<close>

fun splitChar :: "jschar \<Rightarrow> jsstring \<Rightarrow> jsstring list" where
  "splitChar sep [] = [[]]"
| "splitChar sep (c # cs) =
     (if c = sep then [] # splitChar sep cs
      else (case splitChar sep cs of
              [] \<Rightarrow> [[c]]
            | w # ws \<Rightarrow> (c # w) # ws))"

fun joinWith :: "jsstring \<Rightarrow> jsstring list \<Rightarrow> jsstring" where
  "joinWith sep [] = []"
| "joinWith sep [x] = x"
| "joinWith sep (x # y # ys) = x @ sep @ joinWith sep (y # ys)"

datatype dbQuery = CountQuery jsstring | SelectQuery jsstring nat nat

definition keywordList :: "jsstring \<Rightarrow> jsstring list" where
  "keywordList keywords = filter (\<lambda>k. length (jsTrim k) > 0) (splitChar 32 keywords)"

definition searchCandidatesByKeywords ::
  "(jsstring \<Rightarrow> 'q option) \<Rightarrow> (jsstring \<Rightarrow> 'q \<Rightarrow> bool) \<Rightarrow> (jsstring \<Rightarrow> 'q \<Rightarrow> nat)
     \<Rightarrow> jsstring \<Rightarrow> nat \<Rightarrow> nat \<Rightarrow> database
     \<Rightarrow> (error + candidate list \<times> nat) \<times> dbQuery list" where
  "searchCandidatesByKeywords to_tsquery tsMatch ts_rank keywords limit offset db =
     (if length (keywordList keywords) = 0 then (Inr ([], 0), [])
      else
        let searchQuery = joinWith (js '' & '') (map jsTrim (keywordList keywords))
        in case to_tsquery searchQuery of
             None \<Rightarrow> (Inl (DatabaseError (js ''syntax error in tsquery'')),
                       [CountQuery searchQuery])
           | Some q \<Rightarrow>
               let matching = filter (\<lambda>c. case cvContent c of
                                            None \<Rightarrow> False
                                          | Some content \<Rightarrow> tsMatch content q) (candidates db);
                   total = length matching
               in if total = 0 then (Inr ([], 0), [CountQuery searchQuery])
                  else
                    let results =
                          sql_limit_offset limit offset
                            (sql_orderBy_desc
                               (\<lambda>c. case cvContent c of None \<Rightarrow> 0 | Some content \<Rightarrow> ts_rank content q)
                               matching)
                    in (Inr (results, total),
                        [CountQuery searchQuery, SelectQuery searchQuery limit offset]))"

section \<open>Naive search: searchCVs (server/storage.ts)\<close>

text \<open>
  \<^verbatim>\<open>SearchResult\<close>; the fields shared with a candidate carry the prefix \<open>sr_\<close>.
\<close>

record searchResult =
  sr_candidateId :: jsstring
  sr_firstName :: jsstring
  sr_lastName :: jsstring
  sr_city :: jsstring
  sr_phone :: jsstring
  sr_email :: jsstring
  matchedKeywords :: "jsstring list"
  cvPreview :: jsstring
  extractedAt :: nat

text \<open>
  \<^verbatim>\<open>if (!text || !keyword) return false;
  return text.toLowerCase().includes(keyword.toLowerCase());\<close>
\<close>

definition textContainsKeyword :: "(jsstring \<Rightarrow> jsstring) \<Rightarrow> jsstring option \<Rightarrow> jsstring \<Rightarrow> bool" where
  "textContainsKeyword toLowerCase text keyword =
     (case text of
        None \<Rightarrow> False
      | Some t \<Rightarrow> if t = [] \<or> keyword = [] then False
                  else str_includes (toLowerCase t) (toLowerCase keyword))"

definition getCandidateEvents :: "jsstring \<Rightarrow> database \<Rightarrow> candidateEvent list" where
  "getCandidateEvents cid db =
     sql_orderBy_desc event_createdAt
       (sql_where (\<lambda>e. sql_eq (event_candidateId e) (Some cid)) (candidateEvents db))"

text \<open>
  The searchable text of a candidate: name and profession, the stored CV text or else the
  text extracted from the CV file (the extraction from the file system is a parameter; it
  returns the empty string on every failure), and with \<open>includeNotes\<close> the notes and the
  descriptions of the candidate's events.  \<open>appendIfPresent\<close> is
  \<^verbatim>\<open>if (v) { candidateText += ' ' + v; }\<close>.
\<close>

definition appendIfPresent :: "jsstring \<Rightarrow> jsstring option \<Rightarrow> jsstring" where
  "appendIfPresent candidateText v =
     (case v of
        None \<Rightarrow> candidateText
      | Some s \<Rightarrow> if s \<noteq> [] then candidateText @ js '' '' @ s else candidateText)"

definition candidateText ::
  "(jsstring \<Rightarrow> jsstring) \<Rightarrow> bool \<Rightarrow> database \<Rightarrow> candidate \<Rightarrow> jsstring" where
  "candidateText extractTextFromCVFile includeNotes db candidate =
     (let nameProfession =
            jsTrim (orElse (Some (firstName candidate)) [] @ js '' ''
                    @ orElse (Some (lastName candidate)) [] @ js '' ''
                    @ orElse (profession candidate) []);
          text1 = appendIfPresent nameProfession (cvContent candidate);
          text2 = (case cvPath candidate of
                     None \<Rightarrow> text1
                   | Some path \<Rightarrow>
                       if path \<noteq> [] \<and> \<not> truthy (cvContent candidate)
                       then appendIfPresent text1 (Some (extractTextFromCVFile path))
                       else text1)
      in if includeNotes
         then
           let text3 = appendIfPresent text2 (notes candidate);
               eventsText =
                 joinWith (js '' '')
                   (filter (\<lambda>d. length (jsTrim d) > 0)
                      (map (\<lambda>event. orElse (event_description event) [])
                           (getCandidateEvents (cand_id candidate) db)))
           in appendIfPresent text3 (Some eventsText)
         else text2)"

text \<open>
  The loop over the positive keywords, on the pair of \<^verbatim>\<open>hasPositiveMatch\<close> and
  \<^verbatim>\<open>matchedKeywords\<close>, and the loop over the negative keywords, which returns \<^verbatim>\<open>matches\<close>
  and stops at the first hit.
\<close>

fun positiveLoop ::
  "(jsstring \<Rightarrow> bool) \<Rightarrow> jsstring list \<Rightarrow> bool \<times> jsstring list \<Rightarrow> bool \<times> jsstring list" where
  "positiveLoop contains [] state = state"
| "positiveLoop contains (keyword # rest) (hasPositiveMatch, matched) =
     positiveLoop contains rest
       (if contains keyword then (True, matched @ [keyword]) else (hasPositiveMatch, matched))"

fun negativeLoop :: "(jsstring \<Rightarrow> bool) \<Rightarrow> jsstring list \<Rightarrow> bool" where
  "negativeLoop contains [] = True"
| "negativeLoop contains (keyword # rest) =
     (if contains keyword then False else negativeLoop contains rest)"

definition searchCVs ::
  "(jsstring \<Rightarrow> jsstring) \<Rightarrow> (jsstring \<Rightarrow> jsstring) \<Rightarrow> jsstring list \<Rightarrow> jsstring list \<Rightarrow> bool
     \<Rightarrow> database \<Rightarrow> searchResult list" where
  "searchCVs toLowerCase extractTextFromCVFile positiveKeywords negativeKeywords includeNotes db =
     (let allCandidates = sql_orderBy_desc createdAt (candidates db)
      in concat (map (\<lambda>candidate.
           let text = candidateText extractTextFromCVFile includeNotes db candidate;
               positive =
                 (if length positiveKeywords > 0
                  then positiveLoop (textContainsKeyword toLowerCase (Some text))
                         positiveKeywords (False, [])
                  else (False, []));
               matches = (if length positiveKeywords > 0 \<and> \<not> fst positive then False else True);
               matches' =
                 (if matches \<and> length negativeKeywords > 0
                  then negativeLoop (textContainsKeyword toLowerCase (Some text)) negativeKeywords
                  else matches)
           in if matches'
              then [\<lparr>sr_candidateId = cand_id candidate,
                     sr_firstName = orElse (Some (firstName candidate)) [],
                     sr_lastName = orElse (Some (lastName candidate)) [],
                     sr_city = orElse (city candidate) [],
                     sr_phone = orElse (mobile candidate) [],
                     sr_email = orElse (Some (email candidate)) [],
                     matchedKeywords = snd positive,
                     cvPreview = text,
                     extractedAt = createdAt candidate\<rparr>]
              else []) allCandidates))"

text \<open>
  The words of the specification: a keyword is a case-insensitive substring of a text when
  its lower-cased form occurs in the lower-cased text.  \<open>toSearchResult\<close> is the result
  record built for a matching candidate.
\<close>

definition caseInsensitiveSubstring :: "(jsstring \<Rightarrow> jsstring) \<Rightarrow> jsstring \<Rightarrow> jsstring \<Rightarrow> bool" where
  "caseInsensitiveSubstring toLowerCase keyword text = sublist (toLowerCase keyword) (toLowerCase text)"

definition toSearchResult :: "candidate \<Rightarrow> jsstring \<Rightarrow> jsstring list \<Rightarrow> searchResult" where
  "toSearchResult candidate text matched =
     \<lparr>sr_candidateId = cand_id candidate,
      sr_firstName = firstName candidate,
      sr_lastName = lastName candidate,
      sr_city = (case city candidate of None \<Rightarrow> [] | Some s \<Rightarrow> s),
      sr_phone = (case mobile candidate of None \<Rightarrow> [] | Some s \<Rightarrow> s),
      sr_email = email candidate,
      matchedKeywords = matched,
      cvPreview = text,
      extractedAt = createdAt candidate\<rparr>"

text \<open>The example of the specification: a search for Java without Junior.\<close>

definition javaDatabase :: database where
  "javaDatabase =
     \<lparr>candidates =
        [(exampleCandidate (js ''a'') (js ''a@example.com'') None None 10)
           \<lparr>profession := Some (js ''Junior Java developer'')\<rparr>,
         (exampleCandidate (js ''b'') (js ''b@example.com'') None None 20)
           \<lparr>profession := Some (js ''JAVA developer'')\<rparr>],
      jobs = [], jobApplications = [], candidateEvents = []\<rparr>"

section \<open>Field extraction: extractDataFromText (server/routes.ts)\<close>

subsection \<open>Regular expressions\<close>

text \<open>
  The regular expressions of the source use character classes, sequence, alternation, greedy
  repetition, capture groups and \<^verbatim>\<open>\b\<close>.  \<open>matches r st\<close> lists, in the order in which a
  backtracking matcher tries them, the states in which a match of \<open>r\<close> that starts in \<open>st\<close>
  can end.  A state is the character before the position, the rest of the input and the
  captures.  An iteration of a repetition has to consume input, so the length of the rest
  bounds their number.
\<close>

datatype regex =
    Eps
  | Class "jschar \<Rightarrow> bool"
  | Seq regex regex
  | Alt regex regex
  | Star regex
  | Group nat regex
  | WordBoundary

type_synonym captures = "nat \<Rightarrow> jsstring option"
type_synonym mstate = "jschar option \<times> jsstring \<times> captures"

definition isWordChar :: "jschar option \<Rightarrow> bool" where
  "isWordChar v =
     (case v of
        None \<Rightarrow> False
      | Some c \<Rightarrow> (48 \<le> c \<and> c \<le> 57) \<or> (65 \<le> c \<and> c \<le> 90) \<or> c = 95 \<or> (97 \<le> c \<and> c \<le> 122))"

fun starIter :: "(mstate \<Rightarrow> mstate list) \<Rightarrow> nat \<Rightarrow> mstate \<Rightarrow> mstate list" where
  "starIter step 0 st = [st]"
| "starIter step (Suc fuel) st =
     concat (map (\<lambda>st'. if length (fst (snd st')) < length (fst (snd st))
                          then starIter step fuel st' else [])
                 (step st)) @ [st]"

primrec matches :: "regex \<Rightarrow> mstate \<Rightarrow> mstate list" where
  "matches Eps st = [st]"
| "matches (Class P) st =
     (case fst (snd st) of
        [] \<Rightarrow> []
      | c # cs \<Rightarrow> if P c then [(Some c, cs, snd (snd st))] else [])"
| "matches (Seq a b) st = concat (map (matches b) (matches a st))"
| "matches (Alt a b) st = matches a st @ matches b st"
| "matches (Star r) st = starIter (matches r) (length (fst (snd st))) st"
| "matches (Group i r) st =
     map (\<lambda>st'. (fst st', fst (snd st'),
                  (snd (snd st'))
                    (i := Some (take (length (fst (snd st)) - length (fst (snd st')))
                                     (fst (snd st))))))
         (matches r st)"
| "matches WordBoundary st =
     (if isWordChar (fst st) \<noteq> isWordChar (case fst (snd st) of [] \<Rightarrow> None | c # _ \<Rightarrow> Some c)
      then [st] else [])"

text \<open>
  A match: the matched text, the captures, and the character before and the text after its
  end.  \<open>str_match\<close> is \<^verbatim>\<open>String.prototype.match\<close> for an expression without the flag
  \<^verbatim>\<open>g\<close>: the first alternative of the leftmost start position.  \<open>str_match_global\<close> is the
  same for an expression with the flag: the list of all matched texts, or nothing when there
  is none; the search goes on behind a match, one character further after an empty one.  The
  tests on the lengths in \<open>matchAllFrom\<close> always succeed, the text after a match being an
  end piece of the input.
\<close>

record regexMatch =
  whole :: jsstring
  groups :: captures
  before :: "jschar option"
  after :: jsstring

definition matchAt :: "regex \<Rightarrow> jschar option \<Rightarrow> jsstring \<Rightarrow> regexMatch option" where
  "matchAt r prev s =
     (case matches r (prev, s, \<lambda>i. None) of
        [] \<Rightarrow> None
      | st' # _ \<Rightarrow>
          Some \<lparr>whole = take (length s - length (fst (snd st'))) s,
                groups = snd (snd st'),
                before = fst st',
                after = fst (snd st')\<rparr>)"

fun searchFrom :: "regex \<Rightarrow> jschar option \<Rightarrow> jsstring \<Rightarrow> regexMatch option" where
  "searchFrom r prev [] = matchAt r prev []"
| "searchFrom r prev (c # cs) =
     (case matchAt r prev (c # cs) of
        Some m \<Rightarrow> Some m
      | None \<Rightarrow> searchFrom r (Some c) cs)"

definition str_match :: "jsstring \<Rightarrow> regex \<Rightarrow> regexMatch option" where
  "str_match s r = searchFrom r None s"

function matchAllFrom :: "regex \<Rightarrow> jschar option \<Rightarrow> jsstring \<Rightarrow> jsstring list" where
  "matchAllFrom r prev s =
     (case searchFrom r prev s of
        None \<Rightarrow> []
      | Some m \<Rightarrow>
          whole m #
            (if whole m \<noteq> []
             then (if length (after m) < length s
                   then matchAllFrom r (before m) (after m) else [])
             else (case after m of
                     [] \<Rightarrow> []
                   | c # cs \<Rightarrow> if length cs < length s then matchAllFrom r (Some c) cs else [])))"
  by pat_completeness auto
termination
  by (relation "measure (\<lambda>(r, prev, s). length s)") auto

definition str_match_global :: "jsstring \<Rightarrow> regex \<Rightarrow> jsstring list option" where
  "str_match_global s r = (case matchAllFrom r None s of [] \<Rightarrow> None | ms \<Rightarrow> Some ms)"

text \<open>
  The pieces of the patterns.  \<open>chrI\<close> is a character under the flag \<^verbatim>\<open>i\<close>: both sides are
  canonicalized, which for the characters of these patterns (ASCII letters, Hebrew letters,
  digits and punctuation) exchanges the two cases of an ASCII letter and nothing else.
  \<open>exactly n r\<close> is \<^verbatim>\<open>r{n}\<close>, \<open>optional r\<close> is \<^verbatim>\<open>r?\<close>, \<open>oneOrMore r\<close> is \<^verbatim>\<open>r+\<close>.
\<close>

definition chr :: "jschar \<Rightarrow> regex" where
  "chr c = Class (\<lambda>x. x = c)"

definition canonicalize :: "jschar \<Rightarrow> jschar" where
  "canonicalize c = (if 97 \<le> c \<and> c \<le> 122 then c - 32 else c)"

definition chrI :: "jschar \<Rightarrow> regex" where
  "chrI c = Class (\<lambda>x. canonicalize x = canonicalize c)"

definition oneOrMore :: "regex \<Rightarrow> regex" where
  "oneOrMore r = Seq r (Star r)"

definition optional :: "regex \<Rightarrow> regex" where
  "optional r = Alt r Eps"

fun seqs :: "regex list \<Rightarrow> regex" where
  "seqs [] = Eps"
| "seqs [r] = r"
| "seqs (r # rs) = Seq r (seqs rs)"

fun alts :: "regex list \<Rightarrow> regex" where
  "alts [] = Class (\<lambda>c. False)"
| "alts [r] = r"
| "alts (r # rs) = Alt r (alts rs)"

fun exactly :: "nat \<Rightarrow> regex \<Rightarrow> regex" where
  "exactly 0 r = Eps"
| "exactly (Suc n) r = (if n = 0 then r else Seq r (exactly n r))"

definition lit :: "jsstring \<Rightarrow> regex" where
  "lit s = seqs (map chr s)"

definition litI :: "jsstring \<Rightarrow> regex" where
  "litI s = seqs (map chrI s)"

definition digit :: regex where
  "digit = Class (\<lambda>c. 48 \<le> c \<and> c \<le> 57)"

definition whitespace :: regex where
  "whitespace = Class isSpace"

definition letter :: regex where
  "letter = Class (\<lambda>c. (97 \<le> c \<and> c \<le> 122) \<or> (65 \<le> c \<and> c \<le> 90))"

definition upperLetter :: regex where
  "upperLetter = Class (\<lambda>c. 65 \<le> c \<and> c \<le> 90)"

definition lowerLetter :: regex where
  "lowerLetter = Class (\<lambda>c. 97 \<le> c \<and> c \<le> 122)"

definition hebrew :: regex where
  "hebrew = Class (\<lambda>c. 1488 \<le> c \<and> c \<le> 1514)"

definition dashOrSpace :: regex where
  "dashOrSpace = Class (\<lambda>c. c = 45 \<or> isSpace c)"

definition quoteChar :: regex where
  "quoteChar = Class (\<lambda>c. c = 39 \<or> c = 34)"

definition emailChar :: regex where
  "emailChar = Class (\<lambda>c. (97 \<le> c \<and> c \<le> 122) \<or> (65 \<le> c \<and> c \<le> 90) \<or> (48 \<le> c \<and> c \<le> 57)
                         \<or> c = 46 \<or> c = 95 \<or> c = 45)"

text \<open>
  The patterns of \<open>extractDataFromText\<close>, in its order.  The Hebrew words are given by their
  code units; the Hebrew letters are the range 1488 to 1514 (\<^verbatim>\<open>U+05D0\<close> to \<^verbatim>\<open>U+05EA\<close>).
  \<^verbatim>\<open>emailPattern = /([a-zA-Z0-9._-]+@[a-zA-Z0-9._-]+\.[a-zA-Z]{2,})/g\<close>,
  \<^verbatim>\<open>mobilePattern = /(05\d{1}[-\s]?\d{7}|05\d{8})/g\<close>,
  \<^verbatim>\<open>phonePattern = /(0[3489][-\s]?\d{7})/g\<close>,
  \<^verbatim>\<open>streetPattern = /(?:w1|w2['"]|w3|w4|w5['"])\s*([h\s]+)\s*(\d+)/i\<close> for five Hebrew words
  and the Hebrew letters \<open>h\<close>,
  \<^verbatim>\<open>zipPattern = /\b(\d{5,7})\b/\<close>,
  \<^verbatim>\<open>namePattern = /(?:w[:\s]*)?([h]{2,})\s+([h]{2,})|([A-Z][a-z]+)\s+([A-Z][a-z]+)/g\<close>,
  \<^verbatim>\<open>experiencePattern = /(\d+)\s*(?:w(?:a|b|c)?\s*(?:d\s*)?(?:e|f)|years?\s*(?:of\s*)?experience)/i\<close>,
  \<^verbatim>\<open>nationalIdPattern = /\b(\d{9})\b/\<close>,
  \<^verbatim>\<open>licensePattern = /w1\s*w2|r\.?\s*n\.?|driving\s*license/i\<close>,
  \<^verbatim>\<open>phonePattern2 = /(0[2-9][-\s]?\d{7})/g\<close>.
\<close>

definition emailPattern :: regex where
  "emailPattern =
     Group 1 (seqs [oneOrMore emailChar, chr 64, oneOrMore emailChar, chr 46, exactly 2 letter, Star letter])"

definition mobilePattern :: regex where
  "mobilePattern =
     Group 1 (Alt (seqs [chr 48, chr 53, exactly 1 digit, optional dashOrSpace, exactly 7 digit])
                  (seqs [chr 48, chr 53, exactly 8 digit]))"

definition phonePattern :: regex where
  "phonePattern =
     Group 1 (seqs [chr 48, Class (\<lambda>c. c = 51 \<or> c = 52 \<or> c = 56 \<or> c = 57),
                    optional dashOrSpace, exactly 7 digit])"

definition streetPattern :: regex where
  "streetPattern =
     seqs [alts [litI [1512, 1495, 1493, 1489],
                 Seq (litI [1512, 1495]) quoteChar,
                 litI [1491, 1512, 1498],
                 litI [1513, 1491, 1512, 1493, 1514],
                 Seq (litI [1513, 1491]) quoteChar],
           Star whitespace,
           Group 1 (oneOrMore (Class (\<lambda>c. (1488 \<le> c \<and> c \<le> 1514) \<or> isSpace c))),
           Star whitespace,
           Group 2 (oneOrMore digit)]"

definition zipPattern :: regex where
  "zipPattern =
     seqs [WordBoundary, Group 1 (Seq (exactly 5 digit) (optional (Seq digit (optional digit)))),
           WordBoundary]"

definition namePrefixPattern :: regex where
  "namePrefixPattern = Seq (lit [1513, 1501]) (Star (Class (\<lambda>c. c = 58 \<or> isSpace c)))"

definition namePattern :: regex where
  "namePattern =
     Alt (seqs [optional namePrefixPattern,
                Group 1 (Seq (exactly 2 hebrew) (Star hebrew)),
                oneOrMore whitespace,
                Group 2 (Seq (exactly 2 hebrew) (Star hebrew))])
         (seqs [Group 3 (Seq upperLetter (oneOrMore lowerLetter)), oneOrMore whitespace, Group 4 (Seq upperLetter (oneOrMore lowerLetter))])"

definition experiencePattern :: regex where
  "experiencePattern =
     seqs [Group 1 (oneOrMore digit),
           Star whitespace,
           Alt (seqs [litI [1513, 1504],
                      optional (alts [litI [1492], litI [1493, 1514], litI [1497, 1501]]),
                      Star whitespace,
                      optional (Seq (litI [1513, 1500]) (Star whitespace)),
                      Alt (litI [1504, 1497, 1505, 1497, 1493, 1503])
                          (litI [1506, 1489, 1493, 1491, 1492])])
               (seqs [litI (js ''year''), optional (chrI 115), Star whitespace,
                      optional (Seq (litI (js ''of'')) (Star whitespace)),
                      litI (js ''experience'')])]"

definition nationalIdPattern :: regex where
  "nationalIdPattern = seqs [WordBoundary, Group 1 (exactly 9 digit), WordBoundary]"

definition licensePattern :: regex where
  "licensePattern =
     alts [seqs [litI [1512, 1497, 1513, 1497, 1493, 1503], Star whitespace,
                 litI [1504, 1492, 1497, 1490, 1492]],
           seqs [chrI 1512, optional (chrI 46), Star whitespace, chrI 1504, optional (chrI 46)],
           seqs [litI (js ''driving''), Star whitespace, litI (js ''license'')]]"

definition phonePattern2 :: regex where
  "phonePattern2 =
     Group 1 (seqs [chr 48, Class (\<lambda>c. 50 \<le> c \<and> c \<le> 57), optional dashOrSpace, exactly 7 digit])"

subsection \<open>Vocabularies\<close>

definition israeliCities :: "jsstring list" where
  \<comment> \<open>the 53 Hebrew city names of the source, in order, as UTF-16 code units\<close>
  "israeliCities =
     [[1514, 1500, 32, 1488, 1489, 1497, 1489], [1497, 1512, 1493, 1513, 1500, 1497, 1501],
      [1495, 1497, 1508, 1492],
      [1512, 1488, 1513, 1493, 1503, 32, 1500, 1510, 1497, 1493, 1503],
      [1508, 1514, 1495, 32, 1514, 1511, 1493, 1493, 1492], [1488, 1513, 1491, 1493, 1491],
      [1504, 1514, 1504, 1497, 1492], [1489, 1488, 1512, 32, 1513, 1489, 1506],
      [1489, 1504, 1497, 32, 1489, 1512, 1511], [1495, 1493, 1500, 1493, 1503],
      [1512, 1502, 1514, 32, 1490, 1503], [1488, 1513, 1511, 1500, 1493, 1503],
      [1512, 1495, 1493, 1489, 1493, 1514], [1489, 1514, 32, 1497, 1501],
      [1499, 1508, 1512, 32, 1505, 1489, 1488], [1492, 1512, 1510, 1500, 1497, 1492],
      [1495, 1491, 1512, 1492], [1502, 1493, 1491, 1497, 1506, 1497, 1503],
      [1504, 1510, 1512, 1514], [1500, 1493, 1491], [1512, 1506, 1504, 1504, 1492],
      [1512, 1502, 1500, 1492], [1490, 1489, 1506, 1514, 1497, 1497, 1501],
      [1504, 1492, 1512, 1497, 1492], [1488, 1497, 1500, 1514],
      [1496, 1489, 1512, 1497, 1492], [1511, 1512, 1497, 1497, 1514, 32, 1490, 1514],
      [1488, 1493, 1512, 32, 1497, 1492, 1493, 1491, 1492], [1497, 1492, 1493, 1491],
      [1491, 1497, 1502, 1493, 1504, 1492], [1496, 1497, 1512, 1492],
      [1488, 1493, 1501, 32, 1488, 1500, 32, 1508, 1495, 1501],
      [1502, 1490, 1491, 1500, 32, 1492, 1506, 1502, 1511], [1513, 1508, 1512, 1506, 1501],
      [1488, 1499, 1505, 1488, 1500], [1511, 1500, 1504, 1505, 1493, 1493, 1492],
      [1489, 1488, 1511, 1492, 32, 1488, 1500, 32, 1490, 1512, 1489, 1497, 1492],
      [1505, 1495, 1504, 1497, 1503], [1502, 1513, 1492, 1491],
      [1506, 1512, 1506, 1512, 1492], [1499, 1508, 1512, 32, 1511, 1488, 1505, 1501],
      [1488, 1512, 1497, 1488, 1500],
      [1502, 1506, 1500, 1492, 32, 1488, 1491, 1493, 1502, 1497, 1501],
      [1489, 1497, 1514, 32, 1513, 1502, 1513], [1488, 1500, 1506, 1491],
      [1496, 1502, 1512, 1492],
      [1511, 1512, 1497, 1497, 1514, 32, 1502, 1500, 1488, 1499, 1497],
      [1502, 1490, 1491, 1500], [1497, 1511, 1504, 1506, 1501],
      [1504, 1493, 1507, 32, 1492, 1490, 1500, 1497, 1500], [1511, 1510, 1512, 1497, 1503],
      [1502, 1496, 1493, 1500, 1492], [1512, 1488, 1513, 32, 1508, 1497, 1504, 1492]]"

definition professionKeywords :: "jsstring list" where
  \<comment> \<open>14 Hebrew profession words, then developer, engineer, designer, manager, analyst, consultant\<close>
  "professionKeywords =
     [[1502, 1508, 1514, 1495], [1502, 1514, 1499, 1504, 1514],
      [1502, 1492, 1504, 1491, 1505], [1502, 1506, 1510, 1489], [1512, 1493, 1508, 1488],
      [1506, 1493, 1512, 1498, 32, 1491, 1497, 1503],
      [1512, 1493, 1488, 1492, 32, 1495, 1513, 1489, 1493, 1503], [1502, 1504, 1492, 1500],
      [1505, 1502, 1504, 1499, 34, 1500], [1502, 1504, 1499, 34, 1500],
      [1497, 1493, 1506, 1509], [1488, 1491, 1512, 1497, 1499, 1500],
      [1502, 1493, 1512, 1492], [1502, 1512, 1510, 1492],
      [100, 101, 118, 101, 108, 111, 112, 101, 114], [101, 110, 103, 105, 110, 101, 101, 114],
      [100, 101, 115, 105, 103, 110, 101, 114], [109, 97, 110, 97, 103, 101, 114],
      [97, 110, 97, 108, 121, 115, 116], [99, 111, 110, 115, 117, 108, 116, 97, 110, 116]]"

definition genderKeywords :: "jsstring list" where
  \<comment> \<open>4 Hebrew words, then male, female, man, woman\<close>
  "genderKeywords =
     [[1494, 1499, 1512], [1504, 1511, 1489, 1492], [1490, 1489, 1512],
      [1488, 1497, 1513, 1492], [109, 97, 108, 101], [102, 101, 109, 97, 108, 101],
      [109, 97, 110], [119, 111, 109, 97, 110]]"

definition maritalKeywords :: "jsstring list" where
  \<comment> \<open>8 Hebrew words, then married, single, divorced, widowed\<close>
  "maritalKeywords =
     [[1504, 1513, 1493, 1497], [1512, 1493, 1493, 1511], [1490, 1512, 1493, 1513],
      [1488, 1500, 1502, 1503], [1504, 1513, 1493, 1488, 1492],
      [1512, 1493, 1493, 1511, 1492], [1490, 1512, 1493, 1513, 1492],
      [1488, 1500, 1502, 1504, 1492], [109, 97, 114, 114, 105, 101, 100],
      [115, 105, 110, 103, 108, 101], [100, 105, 118, 111, 114, 99, 101, 100],
      [119, 105, 100, 111, 119, 101, 100]]"

definition achievementKeywords :: "jsstring list" where
  \<comment> \<open>4 Hebrew words, then achievements, awards, recognition\<close>
  "achievementKeywords =
     [[1492, 1497, 1513, 1490, 1497, 1501], [1508, 1512, 1505, 1497, 1501],
      [1492, 1499, 1512, 1492], [1492, 1510, 1496, 1497, 1497, 1504, 1493, 1514],
      [97, 99, 104, 105, 101, 118, 101, 109, 101, 110, 116, 115],
      [97, 119, 97, 114, 100, 115], [114, 101, 99, 111, 103, 110, 105, 116, 105, 111, 110]]"

subsection \<open>String functions\<close>

text \<open>
  \<^verbatim>\<open>indexOf\<close>, two-argument \<^verbatim>\<open>substring\<close> (the arguments are cut to the length and
  exchanged when out of order), \<^verbatim>\<open>split(/\s+/)\<close> and \<^verbatim>\<open>replace\<close> with an expression without
  the flag \<^verbatim>\<open>g\<close>, which replaces the first match.
\<close>

definition drivingLicenseYes :: jsstring where
  \<comment> \<open>Hebrew for yes\<close>
  "drivingLicenseYes = [1499, 1503]"

fun str_indexOf :: "jsstring \<Rightarrow> jsstring \<Rightarrow> nat option" where
  "str_indexOf [] p = (if p = [] then Some 0 else None)"
| "str_indexOf (c # cs) p =
     (if startsWith (c # cs) p then Some 0 else map_option Suc (str_indexOf cs p))"

definition substring :: "jsstring \<Rightarrow> nat \<Rightarrow> nat \<Rightarrow> jsstring" where
  "substring s start end =
     (let a = min start (length s);
          b = min end (length s)
      in take (max a b - min a b) (drop (min a b) s))"

function splitSpaces :: "jsstring \<Rightarrow> jsstring list" where
  "splitSpaces s =
     (case dropWhile (\<lambda>c. \<not> isSpace c) s of
        [] \<Rightarrow> [takeWhile (\<lambda>c. \<not> isSpace c) s]
      | c # cs \<Rightarrow> takeWhile (\<lambda>c. \<not> isSpace c) s # splitSpaces (dropWhile isSpace cs))"
  by pat_completeness auto
termination
proof (relation "measure length")
  show "wf (measure length)" by simp
next
  fix s :: jsstring and c cs
  assume "dropWhile (\<lambda>c. \<not> isSpace c) s = c # cs"
  then have "length (c # cs) \<le> length s"
    by (metis length_dropWhile_le)
  moreover have "length (dropWhile isSpace cs) \<le> length cs" by (rule length_dropWhile_le)
  ultimately show "(dropWhile isSpace cs, s) \<in> measure length" by simp
qed

definition str_replace_first :: "jsstring \<Rightarrow> regex \<Rightarrow> jsstring \<Rightarrow> jsstring" where
  "str_replace_first s r replacement =
     (case str_match s r of
        None \<Rightarrow> s
      | Some m \<Rightarrow> take (length s - length (whole m) - length (after m)) s @ replacement @ after m)"

subsection \<open>The extraction\<close>

text \<open>
  The record that \<open>extractDataFromText\<close> returns (its fields carry the prefix \<open>r_\<close>); the
  number that \<^verbatim>\<open>parseInt\<close> returns is a type parameter.  The function has no statement
  that throws by itself; a capture that did not take part in a match is \<^verbatim>\<open>undefined\<close>,
  and \<^verbatim>\<open>streetMatch[1].trim()\<close> and \<^verbatim>\<open>zipCode.length\<close> would then raise a
  \<^verbatim>\<open>TypeError\<close>, while \<^verbatim>\<open>result.houseNumber = streetMatch[2]\<close> and
  \<^verbatim>\<open>result.nationalId = nationalIdMatch[1]\<close> would store \<^verbatim>\<open>undefined\<close> in a string field.
  Both are results of the model (\<open>Inl\<close>), and proved never to occur.
\<close>

datatype extractError = TypeError | UndefinedCapture

record 'n extractedData =
  r_firstName :: jsstring
  r_lastName :: jsstring
  r_email :: jsstring
  r_mobile :: jsstring
  r_phone :: jsstring
  r_phone2 :: jsstring
  r_nationalId :: jsstring
  r_city :: jsstring
  r_street :: jsstring
  r_houseNumber :: jsstring
  r_zipCode :: jsstring
  r_gender :: jsstring
  r_maritalStatus :: jsstring
  r_drivingLicense :: jsstring
  r_profession :: jsstring
  r_experience :: "'n option"
  r_achievements :: jsstring

definition emptyResult :: "'n extractedData" where
  "emptyResult =
     \<lparr>r_firstName = [], r_lastName = [], r_email = [], r_mobile = [], r_phone = [],
      r_phone2 = [], r_nationalId = [], r_city = [], r_street = [], r_houseNumber = [],
      r_zipCode = [], r_gender = [], r_maritalStatus = [], r_drivingLicense = [],
      r_profession = [], r_experience = None, r_achievements = []\<rparr>"

definition stripDashSpace :: "jsstring \<Rightarrow> jsstring" where
  "stripDashSpace s = filter (\<lambda>c. \<not> (c = 45 \<or> isSpace c)) s"

text \<open>
  One definition for each block of the function, in the order of the source.  \<open>upperThird\<close>
  is \<^verbatim>\<open>text.substring(0, Math.floor(text.length * 0.3))\<close>.
\<close>

definition extractEmail :: "jsstring \<Rightarrow> 'n extractedData \<Rightarrow> 'n extractedData" where
  "extractEmail upperThird result =
     (case str_match_global upperThird emailPattern of
        Some (m0 # _) \<Rightarrow> result\<lparr>r_email := m0\<rparr>
      | _ \<Rightarrow> result)"

definition extractMobile :: "jsstring \<Rightarrow> 'n extractedData \<Rightarrow> 'n extractedData" where
  "extractMobile upperThird result =
     (case str_match_global upperThird mobilePattern of
        Some (m0 # _) \<Rightarrow> result\<lparr>r_mobile := stripDashSpace m0\<rparr>
      | _ \<Rightarrow> result)"

definition extractPhone :: "jsstring \<Rightarrow> 'n extractedData \<Rightarrow> 'n extractedData" where
  "extractPhone upperThird result =
     (case str_match_global upperThird phonePattern of
        Some (m0 # _) \<Rightarrow> result\<lparr>r_phone := stripDashSpace m0\<rparr>
      | _ \<Rightarrow> result)"

definition extractCity :: "jsstring \<Rightarrow> jsstring \<Rightarrow> 'n extractedData \<Rightarrow> 'n extractedData" where
  "extractCity upperThird text result =
     (case List.find (\<lambda>city. str_includes upperThird city \<or> str_includes text city)
                     israeliCities of
        Some cityFound \<Rightarrow> result\<lparr>r_city := cityFound\<rparr>
      | None \<Rightarrow> result)"

definition extractStreet ::
  "jsstring \<Rightarrow> 'n extractedData \<Rightarrow> extractError + 'n extractedData" where
  "extractStreet upperThird result =
     (case str_match upperThird streetPattern of
        None \<Rightarrow> Inr result
      | Some streetMatch \<Rightarrow>
          (case groups streetMatch 1 of
             None \<Rightarrow> Inl TypeError
           | Some g1 \<Rightarrow>
               (case groups streetMatch 2 of
                  None \<Rightarrow> Inl UndefinedCapture
                | Some g2 \<Rightarrow> Inr (result\<lparr>r_street := jsTrim g1, r_houseNumber := g2\<rparr>))))"

definition extractZipCode ::
  "jsstring \<Rightarrow> 'n extractedData \<Rightarrow> extractError + 'n extractedData" where
  "extractZipCode upperThird result =
     (case str_match upperThird zipPattern of
        None \<Rightarrow> Inr result
      | Some zipMatch \<Rightarrow>
          if \<not> str_includes (r_mobile result) (interpolate (groups zipMatch 1))
             \<and> \<not> str_includes (r_phone result) (interpolate (groups zipMatch 1))
          then (case groups zipMatch 1 of
                  None \<Rightarrow> Inl TypeError
                | Some zipCode \<Rightarrow>
                    if length zipCode \<ge> 5 \<and> length zipCode \<le> 7
                    then Inr (result\<lparr>r_zipCode := zipCode\<rparr>)
                    else Inr result)
          else Inr result)"

definition extractName :: "jsstring \<Rightarrow> 'n extractedData \<Rightarrow> 'n extractedData" where
  "extractName upperThird result =
     (case str_match_global upperThird namePattern of
        Some (m0 # _) \<Rightarrow>
          (let fullName = jsTrim (str_replace_first m0 namePrefixPattern []);
               nameParts = splitSpaces fullName
           in case nameParts of
                first # second # _ \<Rightarrow> result\<lparr>r_firstName := first, r_lastName := second\<rparr>
              | _ \<Rightarrow> result)
      | _ \<Rightarrow> result)"

definition extractProfession ::
  "(jsstring \<Rightarrow> jsstring) \<Rightarrow> jsstring \<Rightarrow> 'n extractedData \<Rightarrow> 'n extractedData" where
  "extractProfession toLowerCase text result =
     (case List.find (\<lambda>profession. str_includes (toLowerCase text) (toLowerCase profession))
                     professionKeywords of
        Some professionFound \<Rightarrow> result\<lparr>r_profession := professionFound\<rparr>
      | None \<Rightarrow> result)"

definition extractExperience ::
  "(jsstring \<Rightarrow> 'n) \<Rightarrow> jsstring \<Rightarrow> 'n extractedData \<Rightarrow> 'n extractedData" where
  "extractExperience parseInt text result =
     (case str_match text experiencePattern of
        Some experienceMatch \<Rightarrow>
          result\<lparr>r_experience := Some (parseInt (interpolate (groups experienceMatch 1)))\<rparr>
      | None \<Rightarrow> result)"

definition extractNationalId ::
  "jsstring \<Rightarrow> 'n extractedData \<Rightarrow> extractError + 'n extractedData" where
  "extractNationalId upperThird result =
     (case str_match upperThird nationalIdPattern of
        None \<Rightarrow> Inr result
      | Some nationalIdMatch \<Rightarrow>
          (case groups nationalIdMatch 1 of
             None \<Rightarrow> Inl UndefinedCapture
           | Some g1 \<Rightarrow> Inr (result\<lparr>r_nationalId := g1\<rparr>)))"

definition extractGender ::
  "(jsstring \<Rightarrow> jsstring) \<Rightarrow> jsstring \<Rightarrow> 'n extractedData \<Rightarrow> 'n extractedData" where
  "extractGender toLowerCase text result =
     (case List.find (\<lambda>gender. str_includes (toLowerCase text) (toLowerCase gender))
                     genderKeywords of
        Some genderFound \<Rightarrow> result\<lparr>r_gender := genderFound\<rparr>
      | None \<Rightarrow> result)"

definition extractMaritalStatus ::
  "(jsstring \<Rightarrow> jsstring) \<Rightarrow> jsstring \<Rightarrow> 'n extractedData \<Rightarrow> 'n extractedData" where
  "extractMaritalStatus toLowerCase text result =
     (case List.find (\<lambda>marital. str_includes (toLowerCase text) (toLowerCase marital))
                     maritalKeywords of
        Some maritalFound \<Rightarrow> result\<lparr>r_maritalStatus := maritalFound\<rparr>
      | None \<Rightarrow> result)"

definition extractDrivingLicense :: "jsstring \<Rightarrow> 'n extractedData \<Rightarrow> 'n extractedData" where
  "extractDrivingLicense text result =
     (case str_match text licensePattern of
        Some _ \<Rightarrow> result\<lparr>r_drivingLicense := drivingLicenseYes\<rparr>
      | None \<Rightarrow> result)"

definition extractPhone2 :: "jsstring \<Rightarrow> 'n extractedData \<Rightarrow> 'n extractedData" where
  "extractPhone2 upperThird result =
     (case str_match_global upperThird phonePattern2 of
        Some (_ # m1 # _) \<Rightarrow>
          if m1 \<noteq> r_phone result then result\<lparr>r_phone2 := stripDashSpace m1\<rparr> else result
      | _ \<Rightarrow> result)"

definition extractAchievements ::
  "(jsstring \<Rightarrow> jsstring) \<Rightarrow> jsstring \<Rightarrow> 'n extractedData \<Rightarrow> 'n extractedData" where
  "extractAchievements toLowerCase text result =
     (case List.find (\<lambda>achievement. str_includes (toLowerCase text) (toLowerCase achievement))
                     achievementKeywords of
        Some achievementFound \<Rightarrow>
          (case str_indexOf (toLowerCase text) (toLowerCase achievementFound) of
             Some achievementIndex \<Rightarrow>
               result\<lparr>r_achievements :=
                        jsTrim (substring text achievementIndex (achievementIndex + 300))\<rparr>
           | None \<Rightarrow> result)
      | None \<Rightarrow> result)"

text \<open>
  The function.  \<^verbatim>\<open>Math.floor(text.length * 0.3)\<close> is \<open>(3 * n) div 10\<close> for every length
  \<open>n\<close> below \<open>2 ^ 49\<close>, far above the length of any string: the error of the floating
  point product is below one tenth, and a product whose exact value is an integer is rounded
  to that integer.
\<close>

definition extractDataFromText ::
  "(jsstring \<Rightarrow> jsstring) \<Rightarrow> (jsstring \<Rightarrow> 'n) \<Rightarrow> jsstring \<Rightarrow> extractError + 'n extractedData" where
  "extractDataFromText toLowerCase parseInt text =
     (let upperThird = substring text 0 ((3 * length text) div 10);
          result = emptyResult;
          result = extractEmail upperThird result;
          result = extractMobile upperThird result;
          result = extractPhone upperThird result;
          result = extractCity upperThird text result
      in case extractStreet upperThird result of
           Inl err \<Rightarrow> Inl err
         | Inr result \<Rightarrow>
             (case extractZipCode upperThird result of
                Inl err \<Rightarrow> Inl err
              | Inr result \<Rightarrow>
                  (let result = extractName upperThird result;
                       result = extractProfession toLowerCase text result;
                       result = extractExperience parseInt text result
                   in case extractNationalId upperThird result of
                        Inl err \<Rightarrow> Inl err
                      | Inr result \<Rightarrow>
                          (let result = extractGender toLowerCase text result;
                               result = extractMaritalStatus toLowerCase text result;
                               result = extractDrivingLicense text result;
                               result = extractPhone2 upperThird result;
                               result = extractAchievements toLowerCase text result
                           in Inr result))))"

text \<open>No heuristic matches: every test of the function finds nothing.\<close>

definition noHeuristicMatches :: "(jsstring \<Rightarrow> jsstring) \<Rightarrow> jsstring \<Rightarrow> bool" where
  "noHeuristicMatches toLowerCase text =
     (let upperThird = substring text 0 ((3 * length text) div 10)
      in str_match_global upperThird emailPattern = None
         \<and> str_match_global upperThird mobilePattern = None
         \<and> str_match_global upperThird phonePattern = None
         \<and> List.find (\<lambda>city. str_includes upperThird city \<or> str_includes text city)
                      israeliCities = None
         \<and> str_match upperThird streetPattern = None
         \<and> str_match upperThird zipPattern = None
         \<and> str_match_global upperThird namePattern = None
         \<and> List.find (\<lambda>k. str_includes (toLowerCase text) (toLowerCase k)) professionKeywords
             = None
         \<and> str_match text experiencePattern = None
         \<and> str_match upperThird nationalIdPattern = None
         \<and> List.find (\<lambda>k. str_includes (toLowerCase text) (toLowerCase k)) genderKeywords = None
         \<and> List.find (\<lambda>k. str_includes (toLowerCase text) (toLowerCase k)) maritalKeywords = None
         \<and> str_match text licensePattern = None
         \<and> str_match_global upperThird phonePattern2 = None
         \<and> List.find (\<lambda>k. str_includes (toLowerCase text) (toLowerCase k)) achievementKeywords
             = None)"

text \<open>A group that takes part in every match of an expression, by the form of the expression.\<close>

fun alwaysCaptures :: "regex \<Rightarrow> nat \<Rightarrow> bool" where
  "alwaysCaptures (Group j r) i = (j = i \<or> alwaysCaptures r i)"
| "alwaysCaptures (Seq a b) i = (alwaysCaptures a i \<or> alwaysCaptures b i)"
| "alwaysCaptures (Alt a b) i = (alwaysCaptures a i \<and> alwaysCaptures b i)"
| "alwaysCaptures r i = False"

text \<open>A text of control characters, a replacement character and an unpaired surrogate.\<close>

definition binaryGarbage :: jsstring where
  "binaryGarbage = [0, 65533, 3, 255, 7, 8, 56000, 27, 129, 2]"

section \<open>Properties of phone normalization\<close>

lemma js_simps:
  "js ''+972'' = [43, 57, 55, 50]" "js ''972'' = [57, 55, 50]" "js ''0'' = [48]"
  by (simp_all add: js_def)

lemma normalizePhone_steps:
  "normalizePhone x = prependZero (collapsePrefix (filter (\<lambda>c. \<not> phoneSeparator c) x))"
  by (simp add: normalizePhone_def prependZero_def collapsePrefix_def phoneSeparator_def Let_def)

lemma collapsePrefix_zero: "collapsePrefix (48 # t) = 48 # t"
  by (simp add: collapsePrefix_def js_simps)

lemma prependZero_zero: "prependZero (48 # t) = 48 # t"
  by (simp add: prependZero_def js_simps)

lemma zero_not_separator: "\<not> phoneSeparator 48"
  by (simp add: phoneSeparator_def isSpace_def)

lemma collapsePrefix_no_separator:
  "\<forall>c\<in>set s. \<not> phoneSeparator c \<Longrightarrow> \<forall>c\<in>set (collapsePrefix s). \<not> phoneSeparator c"
  by (auto simp: collapsePrefix_def js_simps substring_from_def zero_not_separator
           dest: in_set_dropD)

lemma prependZero_no_separator:
  "\<forall>c\<in>set s. \<not> phoneSeparator c \<Longrightarrow> \<forall>c\<in>set (prependZero s). \<not> phoneSeparator c"
  by (auto simp: prependZero_def js_simps zero_not_separator)

lemma collapsePrefix_cases: "(\<exists>t. collapsePrefix s = 48 # t) \<or> collapsePrefix s = s"
  by (simp add: collapsePrefix_def js_simps)

lemma prependZero_cases: "(\<exists>t. prependZero s = 48 # t) \<or> prependZero s = s"
  by (simp add: prependZero_def js_simps)

lemma prefix_steps_idem:
  "prependZero (collapsePrefix (prependZero (collapsePrefix s))) = prependZero (collapsePrefix s)"
proof -
  consider (zero) t where "prependZero (collapsePrefix s) = 48 # t"
    | (same) "prependZero (collapsePrefix s) = collapsePrefix s"
    using prependZero_cases[of "collapsePrefix s"] by blast
  then show ?thesis
  proof cases
    case zero
    then show ?thesis by (simp add: collapsePrefix_zero prependZero_zero)
  next
    case same
    consider (czero) t where "collapsePrefix s = 48 # t" | (csame) "collapsePrefix s = s"
      using collapsePrefix_cases[of s] by blast
    then show ?thesis
    proof cases
      case czero
      then show ?thesis by (simp add: collapsePrefix_zero prependZero_zero)
    next
      case csame
      have "prependZero (collapsePrefix (prependZero (collapsePrefix s)))
              = prependZero (collapsePrefix (collapsePrefix s))"
        by (simp only: same)
      also have "\<dots> = prependZero (collapsePrefix s)"
        by (simp only: csame)
      finally show ?thesis .
    qed
  qed
qed

lemma strip_fixed:
  "\<forall>c\<in>set s. \<not> phoneSeparator c \<Longrightarrow> filter (\<lambda>c. \<not> phoneSeparator c) s = s"
  by (induction s) auto

lemma normalized_no_separator:
  "\<forall>c\<in>set (prependZero (collapsePrefix (filter (\<lambda>c. \<not> phoneSeparator c) x))).
      \<not> phoneSeparator c"
  by (intro prependZero_no_separator collapsePrefix_no_separator) simp

lemma normalizePhone_idem: "normalizePhone (normalizePhone x) = normalizePhone x"
  unfolding normalizePhone_steps
  by (simp only: strip_fixed[OF normalized_no_separator] prefix_steps_idem)

lemma normalizePhone_international:
  "normalizePhone (js ''+972501234567'') = js ''0501234567''"
  by (simp add: normalizePhone_def js_def isSpace_def substring_from_def)

lemma normalizePhone_local:
  "normalizePhone (js ''0501234567'') = js ''0501234567''"
  by (simp add: normalizePhone_def js_def isSpace_def substring_from_def)

text \<open>
  Claim C2.  Phone normalization is idempotent: for every input string \<open>x\<close>,
  \<open>normalizePhone (normalizePhone x)\<close> equals \<open>normalizePhone x\<close>; and the international
  form \<open>+972501234567\<close> and the local form \<open>0501234567\<close> both normalize to
  \<open>0501234567\<close>.
\<close>

theorem C2_normalizePhone_idempotent:
  "normalizePhone (normalizePhone x) = normalizePhone x
   \<and> normalizePhone (js ''+972501234567'') = js ''0501234567''
   \<and> normalizePhone (js ''0501234567'') = js ''0501234567''"
  using normalizePhone_idem normalizePhone_international normalizePhone_local by simp

section \<open>Identity resolution\<close>

text \<open>
  What \<open>findCandidateByContactInfo\<close> computes: the first row, in the order of the table,
  that matches with the stored mobile normalized by the \<^verbatim>\<open>REPLACE\<close> chain.
\<close>

lemma sql_eq_True: "(sql_eq a (Some y) = Some True) = (a = Some y)"
  by (cases a) (auto simp: sql_eq_def)

lemma sql_or_True: "(sql_or a b = Some True) = (a = Some True \<or> b = Some True)"
  by (auto simp: sql_or_def)

lemma find_hd_filter: "List.find P xs = (case filter P xs of [] \<Rightarrow> None | x # _ \<Rightarrow> Some x)"
  by (induction xs) auto

lemma findCandidateByContactInfo_find:
  "findCandidateByContactInfo L rows m e n = List.find (storedMatch L m e n) rows"
proof -
  have none: "List.find (\<lambda>c. False) rows = None" by (induction rows) auto
  show ?thesis
    unfolding findCandidateByContactInfo_def storedMatch_def find_hd_filter[of _ rows] sql_where_def Let_def truthy_def
    by (cases m; cases e; cases n)
       (auto simp: sql_eq_True sql_or_True split: list.splits option.splits intro!: arg_cong[where f="\<lambda>P. filter P rows"])
qed

lemma find_cong_set: "(\<And>x. x \<in> set xs \<Longrightarrow> P x = Q x) \<Longrightarrow> List.find P xs = List.find Q xs"
  by (induction xs) auto

text \<open>
  Claim C1, as amended.  In a store where the \<^verbatim>\<open>REPLACE\<close> chain of the query gives, on
  every stored mobile, the value of \<open>normalizePhone\<close>, the function returns the first stored
  candidate in the order of the table that satisfies the matching policy (equal normalized
  mobiles, or equal lower-cased emails for a query email that is not empty and has no
  placeholder marker, or equal national ids), and it returns a candidate if and only if some
  stored candidate satisfies the policy.  The query asks for no order, so the candidate
  returned among several is the first of the table, not the most recently created one.
\<close>

theorem C1_findCandidateByContactInfo:
  assumes "\<forall>c\<in>set rows. storedMobileNormalized c = map_option normalizePhone (mobile c)"
  shows "findCandidateByContactInfo sqlLower rows mobileArg emailArg nationalIdArg
           = List.find (contactMatch sqlLower mobileArg emailArg nationalIdArg) rows
         \<and> ((\<exists>c. findCandidateByContactInfo sqlLower rows mobileArg emailArg nationalIdArg = Some c)
              \<longleftrightarrow> (\<exists>c\<in>set rows. contactMatch sqlLower mobileArg emailArg nationalIdArg c))"
proof -
  have eq: "\<And>c. c \<in> set rows \<Longrightarrow>
              storedMatch sqlLower mobileArg emailArg nationalIdArg c
              = contactMatch sqlLower mobileArg emailArg nationalIdArg c"
  proof -
    fix c assume "c \<in> set rows"
    with assms have "storedMobileNormalized c = map_option normalizePhone (mobile c)" by blast
    then show "storedMatch sqlLower mobileArg emailArg nationalIdArg c
              = contactMatch sqlLower mobileArg emailArg nationalIdArg c"
      by (simp add: storedMatch_def contactMatch_def split: option.splits)
  qed
  have f: "findCandidateByContactInfo sqlLower rows mobileArg emailArg nationalIdArg
           = List.find (contactMatch sqlLower mobileArg emailArg nationalIdArg) rows"
    unfolding findCandidateByContactInfo_find by (rule find_cong_set) (rule eq)
  show ?thesis
    unfolding f by (auto simp: find_None_iff simp flip: not_None_eq)
qed

lemma ascii_simps: "js ''-'' = [45]" "js '' '' = [32]" "js ''temp.local'' = [116, 101, 109, 112, 46, 108, 111, 99, 97, 108]"
  by (simp_all add: js_def)

text \<open>
  A store with the mobile \<open>+972-50-1234567\<close>, which the \<^verbatim>\<open>REPLACE\<close> chain and
  \<open>normalizePhone\<close> both turn into \<open>0501234567\<close>, queried with \<open>050 1234567\<close>.
\<close>

theorem C1_findCandidateByContactInfo_witness:
  "storedMobileNormalized
      (exampleCandidate (js ''1'') (js ''dana@example.com'') (Some (js ''+972-50-1234567'')) None 1)
     = Some (js ''0501234567'')
   \<and> findCandidateByContactInfo asciiLower
        [exampleCandidate (js ''1'') (js ''dana@example.com'') (Some (js ''+972-50-1234567'')) None 1]
        (Some (js ''050 1234567'')) None None
      = Some (exampleCandidate (js ''1'') (js ''dana@example.com'') (Some (js ''+972-50-1234567'')) None 1)"
proof -
  have h: "\<forall>c\<in>set [exampleCandidate (js ''1'') (js ''dana@example.com'') (Some (js ''+972-50-1234567'')) None 1].
      storedMobileNormalized c = map_option normalizePhone (mobile c)"
    by (simp add: exampleCandidate_def storedMobileNormalized_def sql_replace_def js_simps
          ascii_simps normalizePhone_def isSpace_def substring_from_def js_def)
  have n: "storedMobileNormalized
      (exampleCandidate (js ''1'') (js ''dana@example.com'') (Some (js ''+972-50-1234567'')) None 1)
     = Some (js ''0501234567'')"
    by (simp add: exampleCandidate_def storedMobileNormalized_def sql_replace_def js_simps
          ascii_simps js_def)
  have m: "contactMatch asciiLower (Some (js ''050 1234567'')) None None
           (exampleCandidate (js ''1'') (js ''dana@example.com'') (Some (js ''+972-50-1234567'')) None 1)"
    by (simp add: contactMatch_def exampleCandidate_def normalizePhone_def isSpace_def substring_from_def js_def)
  show ?thesis
    using C1_findCandidateByContactInfo[OF h, of asciiLower "Some (js ''050 1234567'')" None None] m n
    by simp
qed

text \<open>
  The claim as stated fails.  The stored mobile \<open>972501234567\<close> and the query
  \<open>0501234567\<close> have the same \<open>normalizePhone\<close> form, but the \<^verbatim>\<open>REPLACE\<close> chain leaves the
  stored value as it is and nothing is found.  And of two candidates with the same national
  id the one stored first is returned, although the other was created later.
\<close>

theorem C1_findCandidateByContactInfo_counterexample:
  "normalizePhone (js ''972501234567'') = normalizePhone (js ''0501234567'')
   \<and> findCandidateByContactInfo asciiLower
        [exampleCandidate (js ''1'') (js ''dana@example.com'') (Some (js ''972501234567'')) None 1]
        (Some (js ''0501234567'')) None None = None
   \<and> findCandidateByContactInfo asciiLower
        [exampleCandidate (js ''1'') (js ''old@example.com'') None (Some (js ''123456782'')) 1,
         exampleCandidate (js ''2'') (js ''new@example.com'') None (Some (js ''123456782'')) 2]
        None None (Some (js ''123456782''))
       = Some (exampleCandidate (js ''1'') (js ''old@example.com'') None (Some (js ''123456782'')) 1)
   \<and> createdAt (exampleCandidate (js ''1'') (js ''old@example.com'') None (Some (js ''123456782'')) 1)
       < createdAt (exampleCandidate (js ''2'') (js ''new@example.com'') None (Some (js ''123456782'')) 2)"
  by (simp add: findCandidateByContactInfo_find storedMatch_def exampleCandidate_def
        storedMobileNormalized_def sql_replace_def js_simps ascii_simps
        normalizePhone_def isSpace_def substring_from_def js_def)

section \<open>Candidate numbering\<close>

lemma sorted_last_Max: "sorted ys \<Longrightarrow> ys \<noteq> [] \<Longrightarrow> last ys = Max (set ys)"
  by (induction ys) (auto simp: max_def Max_insert2 intro: antisym)

lemma take1_rev_sort: "take 1 (rev (sort xs)) = (if xs = [] then [] else [Max (set xs)])"
proof (cases "xs = []")
  case True then show ?thesis by simp
next
  case False
  then have ne: "sort xs \<noteq> []" by (metis length_sort length_0_conv)
  have "take 1 (rev (sort xs)) = [hd (rev (sort xs))]"
    using ne by (cases "rev (sort xs)") auto
  also have "hd (rev (sort xs)) = last (sort xs)" using ne by (simp add: hd_rev)
  also have "\<dots> = Max (set xs)" using sorted_last_Max[OF sorted_sort ne] by simp
  finally show ?thesis using False by simp
qed

lemma nextNumber_alt:
  "nextNumber db = (if storedNumbers db = [] then 100
                    else (if Max (set (storedNumbers db)) = 0 then 99 else Max (set (storedNumbers db))) + 1)"
  unfolding nextNumber_def take1_rev_sort by simp

lemma nextNumber_greater: "n \<in> set (storedNumbers db) \<Longrightarrow> n < nextNumber db"
proof -
  assume a: "n \<in> set (storedNumbers db)"
  then have "n \<le> Max (set (storedNumbers db))" by simp
  moreover have "storedNumbers db \<noteq> []" using a by auto
  ultimately show ?thesis by (simp add: nextNumber_alt)
qed

lemma createCandidate_Inr:
  "createCandidate newId now candidate db = Inr (c, db') \<Longrightarrow>
     candidateNumber c = Some (nextNumber db) \<and> candidates db' = candidates db @ [c]
     \<and> jobs db' = jobs db \<and> jobApplications db' = jobApplications db"
  by (auto simp: createCandidate_def nextNumber_def storedNumbers_def numbersOf_def Let_def
        insertCandidate.extend_def candidate.fields_def split: if_splits)

lemma createCandidate_Inl:
  "createCandidate newId now candidate db = Inl e \<Longrightarrow>
     \<exists>c\<in>set (candidates db). email c = email candidate"
  by (auto simp: createCandidate_def Let_def split: if_splits)

lemma storedNumbers_append:
  "candidates db' = candidates db @ [c] \<Longrightarrow> candidateNumber c = Some n \<Longrightarrow>
   storedNumbers db' = storedNumbers db @ [n]"
  by (simp add: storedNumbers_def numbersOf_def)

lemma nextNumber_step:
  assumes "candidates db' = candidates db @ [c]" "candidateNumber c = Some (nextNumber db)"
  shows "nextNumber db < nextNumber db'"
    and "100 \<le> nextNumber db \<Longrightarrow> nextNumber db' = nextNumber db + 1"
proof -
  have s: "storedNumbers db' = storedNumbers db @ [nextNumber db]"
    using assms by (rule storedNumbers_append)
  have "Max (set (storedNumbers db')) = nextNumber db"
    unfolding s using nextNumber_greater[of _ db]
    by (auto intro!: Max_eqI dest: less_imp_le)
  then have e: "nextNumber db' = (if nextNumber db = 0 then 99 else nextNumber db) + 1"
    by (simp add: nextNumber_alt[of db'] s)
  show "nextNumber db < nextNumber db'" using e by auto
  show "100 \<le> nextNumber db \<Longrightarrow> nextNumber db' = nextNumber db + 1" using e by auto
qed

lemma numbersOf_Cons: "candidateNumber c = Some n \<Longrightarrow> numbersOf (c # cs) = n # numbersOf cs"
  by (simp add: numbersOf_def)

lemma numbersOf_append: "numbersOf (xs @ ys) = numbersOf xs @ numbersOf ys"
  by (simp add: numbersOf_def)

lemma map_upt_shift: "map (\<lambda>i. n + 1 + int i) [0..<k] = map (\<lambda>i. n + int (Suc i)) [0..<k]"
  by simp

lemma createSequence_numbers:
  "createSequence requests db = (created, db') \<Longrightarrow>
     candidates db' = candidates db @ created
     \<and> length (numbersOf created) = length created
     \<and> sorted_wrt (<) (numbersOf created)
     \<and> (\<forall>n\<in>set (numbersOf created). nextNumber db \<le> n)
     \<and> (100 \<le> nextNumber db \<longrightarrow>
          numbersOf created = map (\<lambda>i. nextNumber db + int i) [0..<length created])"
proof (induction requests arbitrary: db created db')
  case Nil
  then show ?case by (simp add: numbersOf_def)
next
  case (Cons r requests)
  obtain newId now candidate where r: "r = (newId, now, candidate)" by (cases r) auto
  show ?case
  proof (cases "createCandidate newId now candidate db")
    case (Inl e)
    with Cons.prems r have "createSequence requests db = (created, db')" by simp
    from Cons.IH[OF this] show ?thesis .
  next
    case (Inr p)
    obtain c db1 where p: "p = (c, db1)" by (cases p) auto
    obtain cs db2 where rest: "createSequence requests db1 = (cs, db2)"
      by (cases "createSequence requests db1") auto
    from Cons.prems r Inr p rest have cr: "created = c # cs" and d: "db' = db2" by auto
    from createCandidate_Inr[OF Inr[unfolded p]]
    have num: "candidateNumber c = Some (nextNumber db)"
      and app: "candidates db1 = candidates db @ [c]" by auto
    note step = nextNumber_step[OF app num]
    from Cons.IH[OF rest] have
      ih1: "candidates db2 = candidates db1 @ cs"
      and ih2: "length (numbersOf cs) = length cs"
      and ih3: "sorted_wrt (<) (numbersOf cs)"
      and ih4: "\<forall>n\<in>set (numbersOf cs). nextNumber db1 \<le> n"
      and ih5: "100 \<le> nextNumber db1 \<longrightarrow>
                  numbersOf cs = map (\<lambda>i. nextNumber db1 + int i) [0..<length cs]"
      by auto
    have n: "numbersOf created = nextNumber db # numbersOf cs"
      unfolding cr by (rule numbersOf_Cons[OF num])
    have g: "100 \<le> nextNumber db \<longrightarrow>
              numbersOf created = map (\<lambda>i. nextNumber db + int i) [0..<length created]"
    proof
      assume h: "100 \<le> nextNumber db"
      then have e: "nextNumber db1 = nextNumber db + 1" by (rule step(2))
      with h ih5 have "numbersOf cs = map (\<lambda>i. nextNumber db + 1 + int i) [0..<length cs]"
        by simp
      then have "numbersOf cs = map (\<lambda>i. nextNumber db + int (Suc i)) [0..<length cs]"
        by (simp only: map_upt_shift)
      then show "numbersOf created = map (\<lambda>i. nextNumber db + int i) [0..<length created]"
        unfolding cr
        by (simp add: numbersOf_Cons[OF num] upt_conv_Cons map_Suc_upt[symmetric] o_def
                 del: upt_Suc)
    qed
    show ?thesis
      using ih1 ih2 ih3 ih4 step(1) g
      unfolding n d by (auto simp: app cr)
  qed
qed

text \<open>
  Claim C6, as amended.  In a run of creations with nothing deleted in between, every created
  candidate has a number, the numbers are strictly increasing, none of them is a number
  already stored before the run, and when no stored candidate has a number they are
  100, 101, 102 and so on without a gap.
\<close>

theorem C6_createCandidate_numbers:
  assumes "createSequence requests db = (created, db')"
  shows "length (numbersOf created) = length created
         \<and> sorted_wrt (<) (numbersOf created)
         \<and> set (numbersOf created) \<inter> set (storedNumbers db) = {}
         \<and> (storedNumbers db = [] \<longrightarrow>
              numbersOf created = map (\<lambda>i. 100 + int i) [0..<length created])"
proof -
  note n = createSequence_numbers[OF assms]
  have disj: "set (numbersOf created) \<inter> set (storedNumbers db) = {}"
  proof -
    have "\<And>k. k \<in> set (numbersOf created) \<Longrightarrow> k \<in> set (storedNumbers db) \<Longrightarrow> False"
    proof -
      fix k assume "k \<in> set (numbersOf created)" and s: "k \<in> set (storedNumbers db)"
      with n have "nextNumber db \<le> k" by blast
      with nextNumber_greater[OF s] show False by simp
    qed
    then show ?thesis by blast
  qed
  have start: "storedNumbers db = [] \<Longrightarrow> nextNumber db = 100"
    by (simp add: nextNumber_def)
  show ?thesis using n disj start by auto
qed

lemma twoCreated_numbers: "storedNumbers twoCreated = [100, 101]"
  by (simp add: twoCreated_def databaseAfter_def createCandidate_def emptyDatabase_def
        exampleInsert_def storedNumbers_def numbersOf_def insertCandidate.extend_def
        candidate.fields_def js_def Let_def)

text \<open>Two creations in the empty database receive the numbers 100 and 101.\<close>

theorem C6_createCandidate_numbers_witness:
  "createSequence [(js ''id-a'', 1, exampleInsert (js ''a@example.com'')),
                   (js ''id-b'', 2, exampleInsert (js ''b@example.com''))] emptyDatabase
     = (candidates twoCreated, twoCreated)
   \<and> numbersOf (candidates twoCreated) = [100, 101]"
proof -
  have run: "createSequence [(js ''id-a'', 1, exampleInsert (js ''a@example.com'')),
                   (js ''id-b'', 2, exampleInsert (js ''b@example.com''))] emptyDatabase
     = (candidates twoCreated, twoCreated)"
    by (simp add: twoCreated_def databaseAfter_def createCandidate_def emptyDatabase_def
        exampleInsert_def insertCandidate.extend_def candidate.fields_def js_def Let_def)
  have e: "storedNumbers emptyDatabase = []"
    by (simp add: storedNumbers_def numbersOf_def emptyDatabase_def)
  have l: "length (candidates twoCreated) = 2"
    using twoCreated_numbers C6_createCandidate_numbers[OF run]
    by (simp add: storedNumbers_def)
  show ?thesis
    using C6_createCandidate_numbers[OF run] e l run
    by (simp add: numeral_2_eq_2)
qed

text \<open>
  The claim as stated fails when a deletion comes between two creations: after the candidate
  with the number 101 is deleted, the next creation is given 101 again, so a number is used
  twice and the assigned numbers 100, 101, 101 are not strictly increasing.
\<close>

theorem C6_createCandidate_numbers_counterexample:
  "assignedNumber
     (createCandidate (js ''id-b'') 2 (exampleInsert (js ''b@example.com''))
        (databaseAfter
           (createCandidate (js ''id-a'') 1 (exampleInsert (js ''a@example.com'')) emptyDatabase)
           emptyDatabase)) = Some 101
   \<and> assignedNumber
       (createCandidate (js ''id-c'') 3 (exampleInsert (js ''c@example.com''))
          (deleteCandidate (js ''id-b'') twoCreated)) = Some 101"
  by (simp add: assignedNumber_def twoCreated_def databaseAfter_def createCandidate_def
        deleteCandidate_def emptyDatabase_def exampleInsert_def insertCandidate.extend_def
        candidate.fields_def js_def Let_def)

section \<open>Job applications\<close>

lemma filter_same_key:
  "distinct (map f xs) \<Longrightarrow> x \<in> set xs \<Longrightarrow> filter (\<lambda>a. f a = f x) xs = [x]"
proof (induction xs)
  case Nil then show ?case by simp
next
  case (Cons y ys)
  show ?case
  proof (cases "y = x")
    case True
    with Cons.prems have "\<forall>a\<in>set ys. f a \<noteq> f x" by (auto simp: image_iff)
    then have "filter (\<lambda>a. f a = f x) ys = []" by (simp add: filter_empty_conv)
    with True show ?thesis by simp
  next
    case False
    with Cons.prems have "x \<in> set ys" "f y \<noteq> f x" by (auto simp: image_iff)
    with Cons show ?thesis by simp
  qed
qed

lemma map_update_same_key:
  "distinct (map f xs) \<Longrightarrow> x \<in> set xs \<Longrightarrow>
     map (\<lambda>a. if f a = f x then g a else a) xs = map (\<lambda>a. if a = x then g a else a) xs"
  by (rule map_cong) (auto simp: distinct_map inj_on_def)

lemma sql_where_subset: "set (sql_where cond rows) \<subseteq> set rows"
  by (auto simp: sql_where_def)

text \<open>
  Claim C10.  When an application for the same candidate and job exists and the requested
  status is \<open>interview_scheduled\<close>, \<open>createJobApplication\<close> raises no error: it returns the
  existing application with the status \<open>interview_scheduled\<close>, flagged as already existing
  and updated, with its original \<^verbatim>\<open>appliedAt\<close> and status, and the table afterwards is the
  old one with the status of that row changed, so no row is inserted.  The ids of the
  applications are distinct, as the primary key demands.
\<close>

theorem C10_interview_scheduled_updates_existing:
  assumes existing: "existingApplications application db = existing0 # rest"
    and requested: "status application = Some (js ''interview_scheduled'')"
    and primaryKey: "distinct (map app_id (jobApplications db))"
  shows "createJobApplication newId now application db =
           Inr (ExistingApplication
                  \<lparr>updatedApplication = Some (existing0\<lparr>status := Some (js ''interview_scheduled'')\<rparr>),
                   alreadyExisted = True,
                   originalAppliedAt = appliedAt existing0,
                   originalStatus = status existing0,
                   wasUpdated = True\<rparr>,
                db\<lparr>jobApplications :=
                     map (\<lambda>a. if a = existing0
                               then a\<lparr>status := Some (js ''interview_scheduled'')\<rparr> else a)
                         (jobApplications db)\<rparr>)"
proof -
  let ?upd = "\<lambda>a::jobApplication. a\<lparr>status := Some (js ''interview_scheduled'')\<rparr>"
  let ?rows' = "map (\<lambda>a. if app_id a = app_id existing0 then ?upd a else a) (jobApplications db)"
  have mem: "existing0 \<in> set (jobApplications db)"
    using existing sql_where_subset[of _ "jobApplications db"]
    unfolding existingApplications_def by (metis list.set_intros(1) subsetD)
  have key: "\<And>a. (app_id (if app_id a = app_id existing0 then ?upd a else a) = app_id existing0)
               = (app_id a = app_id existing0)"
    by simp
  have "filter (\<lambda>a. app_id a = app_id existing0) ?rows'
          = map (\<lambda>a. if app_id a = app_id existing0 then ?upd a else a)
              (filter (\<lambda>a. app_id a = app_id existing0) (jobApplications db))"
    by (simp add: filter_map o_def)
  also have "\<dots> = [?upd existing0]"
    by (simp add: filter_same_key[OF primaryKey mem])
  finally have returned: "filter (\<lambda>a. app_id a = app_id existing0) ?rows' = [?upd existing0]" .
  have rows: "?rows' = map (\<lambda>a. if a = existing0 then ?upd a else a) (jobApplications db)"
    by (rule map_update_same_key[OF primaryKey mem])
  have "createJobApplication newId now application db =
           Inr (ExistingApplication
                  \<lparr>updatedApplication =
                     (case filter (\<lambda>a. app_id a = app_id existing0) ?rows' of
                        [] \<Rightarrow> None | u # _ \<Rightarrow> Some u),
                   alreadyExisted = True,
                   originalAppliedAt = appliedAt existing0,
                   originalStatus = status existing0,
                   wasUpdated = True\<rparr>,
                db\<lparr>jobApplications := ?rows'\<rparr>)"
    using existing requested
    unfolding createJobApplication_def existingApplications_def Let_def
    by simp
  also have "(case filter (\<lambda>a. app_id a = app_id existing0) ?rows' of
                [] \<Rightarrow> None | u # _ \<Rightarrow> Some u) = Some (?upd existing0)"
    by (simp only: returned list.case)
  also have "db\<lparr>jobApplications := ?rows'\<rparr> =
             db\<lparr>jobApplications :=
                  map (\<lambda>a. if a = existing0 then ?upd a else a) (jobApplications db)\<rparr>"
    by (simp only: rows)
  finally show ?thesis .
qed

lemma example_strings:
  "js ''interview_scheduled'' \<noteq> js ''submitted''"
  "js ''c1'' \<noteq> js ''nobody''"
  by (simp_all add: js_def)

text \<open>The submitted application of the example database, requested again for an interview.\<close>

theorem C10_interview_scheduled_updates_existing_witness:
  "existingApplications (exampleRequest (js ''c1'') (js ''j1'') (js ''interview_scheduled''))
       appliedDatabase
     = [exampleApplication (js ''a1'') (js ''c1'') (js ''j1'') (js ''submitted'') 5]
   \<and> distinct (map app_id (jobApplications appliedDatabase))
   \<and> createJobApplication (js ''a2'') 9
         (exampleRequest (js ''c1'') (js ''j1'') (js ''interview_scheduled'')) appliedDatabase
       = Inr (ExistingApplication
                \<lparr>updatedApplication =
                   Some (exampleApplication (js ''a1'') (js ''c1'') (js ''j1'')
                           (js ''interview_scheduled'') 5),
                 alreadyExisted = True,
                 originalAppliedAt = Some 5,
                 originalStatus = Some (js ''submitted''),
                 wasUpdated = True\<rparr>,
              appliedDatabase\<lparr>jobApplications :=
                [exampleApplication (js ''a1'') (js ''c1'') (js ''j1'')
                   (js ''interview_scheduled'') 5]\<rparr>)"
proof -
  have e: "existingApplications (exampleRequest (js ''c1'') (js ''j1'') (js ''interview_scheduled''))
       appliedDatabase
     = [exampleApplication (js ''a1'') (js ''c1'') (js ''j1'') (js ''submitted'') 5]"
    by (simp add: existingApplications_def exampleRequest_def appliedDatabase_def
          exampleApplication_def sql_where_def sql_and_def sql_eq_def)
  have r: "status (exampleRequest (js ''c1'') (js ''j1'') (js ''interview_scheduled''))
             = Some (js ''interview_scheduled'')"
    by (simp add: exampleRequest_def)
  have d: "distinct (map app_id (jobApplications appliedDatabase))"
    by (simp add: appliedDatabase_def)
  show ?thesis
    using C10_interview_scheduled_updates_existing[OF e r d, of "js ''a2''" 9] e d
    by (simp add: appliedDatabase_def exampleApplication_def)
qed

text \<open>
  Claim C7 fails on the handler.  For a request that repeats the application of the example
  database with the status \<open>submitted\<close>, \<open>createJobApplication\<close> throws the duplicate error
  with the existing application attached and changes nothing, as the claim says.  The
  handler of \<^verbatim>\<open>POST /api/job-applications\<close> answers it with the status 500 and the fixed
  message, and leaves the database unchanged; a request for a candidate that does not exist,
  which fails on the foreign key, gets the very same answer.  The conflict is not surfaced
  distinctly and the existing application does not reach the client.
\<close>

theorem C7_handler_drops_duplicate_conflict:
  "createJobApplication (js ''a2'') 9 (exampleRequest (js ''c1'') (js ''j1'') (js ''submitted''))
       appliedDatabase
     = Inl (DuplicateApplicationError duplicateMessage
              (exampleApplication (js ''a1'') (js ''c1'') (js ''j1'') (js ''submitted'') 5) True)
   \<and> postJobApplications Inr (js ''a2'') 9
         (exampleRequest (js ''c1'') (js ''j1'') (js ''submitted'')) appliedDatabase
       = (\<lparr>statusCode = 500, body = MessageJson (js ''Failed to create job application'')\<rparr>,
          appliedDatabase)
   \<and> createJobApplication (js ''a2'') 9
         (exampleRequest (js ''nobody'') (js ''j1'') (js ''submitted'')) appliedDatabase
       = Inl (DatabaseError (js ''violates foreign key constraint''))
   \<and> postJobApplications Inr (js ''a2'') 9
         (exampleRequest (js ''nobody'') (js ''j1'') (js ''submitted'')) appliedDatabase
       = (\<lparr>statusCode = 500, body = MessageJson (js ''Failed to create job application'')\<rparr>,
          appliedDatabase)"
proof -
  have dup: "createJobApplication (js ''a2'') 9
       (exampleRequest (js ''c1'') (js ''j1'') (js ''submitted'')) appliedDatabase
     = Inl (DuplicateApplicationError duplicateMessage
              (exampleApplication (js ''a1'') (js ''c1'') (js ''j1'') (js ''submitted'') 5) True)"
    using example_strings(1)
    by (simp add: createJobApplication_def exampleRequest_def appliedDatabase_def
          exampleApplication_def sql_where_def sql_and_def sql_eq_def)
  have fk: "createJobApplication (js ''a2'') 9
         (exampleRequest (js ''nobody'') (js ''j1'') (js ''submitted'')) appliedDatabase
       = Inl (DatabaseError (js ''violates foreign key constraint''))"
    using example_strings(2)
    by (simp add: createJobApplication_def exampleRequest_def appliedDatabase_def
          exampleApplication_def exampleCandidate_def sql_where_def sql_and_def sql_eq_def)
  show ?thesis
    by (simp add: dup fk postJobApplications_def)
qed

section \<open>The inbound email pipeline\<close>

lemma createJobApplication_candidates:
  "createJobApplication newId now application db = Inr (r, db') \<Longrightarrow> candidates db' = candidates db"
  by (auto simp: createJobApplication_def Let_def split: list.splits if_splits)

lemma jobStep_candidates:
  "candidates (jobStep newApplicationId now candidateData cid db1) = candidates db1"
  unfolding jobStep_def
  by (auto split: option.splits sum.splits dest: createJobApplication_candidates)

lemma createCandidateFromEmail_create_branch:
  assumes "existingCandidateFor sqlILike candidateData db = None" "email' candidateData = Some e"
  shows "createCandidateFromEmail sqlILike newCandidateId newApplicationId now candidateData db
         = (case createCandidate newCandidateId now (newProfile candidateData e) db of
              Inl err \<Rightarrow> db
            | Inr (newCandidate, db') \<Rightarrow>
                jobStep newApplicationId now candidateData (cand_id newCandidate) db')"
  using assms
  unfolding createCandidateFromEmail_def existingCandidateFor_def jobStep_def newProfile_def Let_def
  by (simp split: sum.splits)

lemma createCandidateFromEmail_candidates_update:
  assumes "existingCandidateFor sqlILike candidateData db = Some existingCandidate"
  shows "candidates (createCandidateFromEmail sqlILike newCandidateId newApplicationId now candidateData db)
         = candidates (updateCandidate now (cand_id existingCandidate)
                        (\<lambda>c. c\<lparr>firstName := orElse (firstName' candidateData)
                                                   (firstName existingCandidate),
                                lastName := orElse (lastName' candidateData)
                                                  (lastName existingCandidate),
                                mobile := orElseNullable (phone candidateData)
                                                         (mobile existingCandidate),
                                notes := Some (mergedNotes existingCandidate candidateData)\<rparr>)
                        db)"
  using assms
  unfolding createCandidateFromEmail_def existingCandidateFor_def Let_def
  by (auto split: option.splits sum.splits dest: createJobApplication_candidates)

lemma startsWith_append: "startsWith (p @ r) p"
  by (induction p) auto

lemma jsTrim_keeps_prefix:
  assumes "x \<in> set block" "\<not> isSpace x"
  shows "startsWith (jsTrim (old @ block)) (dropWhile isSpace old)"
proof (cases "\<forall>c\<in>set old. isSpace c")
  case True
  then have "dropWhile isSpace old = []" by (simp add: dropWhile_eq_Nil_conv)
  then show ?thesis by (simp only: startsWith.simps)
next
  case False
  then obtain y where y: "y \<in> set old" "\<not> isSpace y" by blast
  have d: "dropWhile isSpace (old @ block) = dropWhile isSpace old @ block"
    using dropWhile_append1[of y old isSpace block] y by simp
  have xr: "x \<in> set (rev block)" using assms(1) by simp
  have "dropWhile isSpace (rev (dropWhile isSpace old @ block))
          = dropWhile isSpace (rev block) @ rev (dropWhile isSpace old)"
    using dropWhile_append1[of x "rev block" isSpace "rev (dropWhile isSpace old)"] xr assms(2)
    by simp
  then have "jsTrim (old @ block)
          = dropWhile isSpace old @ rev (dropWhile isSpace (rev block))"
    by (simp add: jsTrim_def d)
  then show ?thesis by (simp add: startsWith_append)
qed

lemma mergedNotes_keeps_old:
  "startsWith (mergedNotes existingCandidate candidateData)
     (dropWhile isSpace (orElse (notes existingCandidate) []))"
proof -
  have "(45::nat) \<in> set (newMailHeader @ interpolate (originalSubject candidateData)
                    @ contentLabel @ interpolate (originalBody candidateData))"
    by (simp add: newMailHeader_def)
  moreover have "\<not> isSpace 45" by (simp add: isSpace_def)
  ultimately show ?thesis
    unfolding mergedNotes_def by (rule jsTrim_keeps_prefix)
qed

lemma danaSearch:
  "fst (getCandidates ilikeAscii 100 0 (Some (js ''dana@example.com'')) danaDatabase) = [storedDana]"
  by (simp add: getCandidates_def danaDatabase_def storedDana_def exampleCandidate_def
        sql_where_def sql_or_def sql_ilike_opt_def ilikeAscii_def asciiLower_def js_def
        sql_limit_offset_def sql_orderBy_desc_def Let_def)

lemma danaExisting:
  "existingCandidateFor ilikeAscii (exampleMessage fn ln (js ''dana@example.com'') tel)
     danaDatabase = Some storedDana"
  unfolding existingCandidateFor_def
  by (simp add: exampleMessage_def danaSearch) (simp add: storedDana_def exampleCandidate_def)

lemma danaEmails:
  "js ''dana@example.com'' \<noteq> js ''DANA@example.com''"
  by (simp add: js_def)

lemma getCandidates_subset:
  "set (fst (getCandidates sqlILike limit offset search db)) \<subseteq> set (candidates db)"
proof -
  have "\<And>cond. set (sql_limit_offset limit offset
                    (sql_orderBy_desc createdAt (sql_where cond (candidates db))))
              \<subseteq> set (candidates db)"
  proof -
    fix cond :: "candidate \<Rightarrow> sqlbool"
    have "set (sql_limit_offset limit offset
                    (sql_orderBy_desc createdAt (sql_where cond (candidates db))))
            \<subseteq> set (sql_orderBy_desc createdAt (sql_where cond (candidates db)))"
      unfolding sql_limit_offset_def
      by (meson set_take_subset set_drop_subset subset_trans)
    also have "\<dots> \<subseteq> set (candidates db)"
      by (auto simp: sql_orderBy_desc_def sql_where_def)
    finally show "set (sql_limit_offset limit offset
                    (sql_orderBy_desc createdAt (sql_where cond (candidates db))))
              \<subseteq> set (candidates db)" .
  qed
  then show ?thesis by (simp add: getCandidates_def Let_def)
qed

lemma existingCandidateFor_Some:
  "existingCandidateFor sqlILike candidateData db = Some c \<Longrightarrow>
     c \<in> set (candidates db) \<and> Some (email c) = email' candidateData"
  unfolding existingCandidateFor_def find_Some_iff
  using getCandidates_subset[of sqlILike 100 0 "email' candidateData" db]
  by (metis nth_mem subsetD)

lemma existingCandidateFor_None:
  "email' candidateData = Some e \<Longrightarrow> \<forall>c\<in>set (candidates db). email c \<noteq> e \<Longrightarrow>
     existingCandidateFor sqlILike candidateData db = None"
  unfolding existingCandidateFor_def find_None_iff
  using getCandidates_subset[of sqlILike 100 0 "email' candidateData" db]
  by auto

lemma createCandidate_fresh_email:
  "\<forall>c\<in>set (candidates db). email c \<noteq> email candidate \<Longrightarrow>
     \<exists>new. createCandidate newId now candidate db
              = Inr (new, db\<lparr>candidates := candidates db @ [new]\<rparr>)
           \<and> email new = email candidate \<and> mobile new = mobile candidate
           \<and> cand_id new = newId"
  by (auto simp: createCandidate_def Let_def insertCandidate.extend_def candidate.fields_def)

lemma createCandidateFromEmail_candidates_create:
  assumes "email' candidateData = Some e" "\<forall>c\<in>set (candidates db). email c \<noteq> e"
  shows "\<exists>new. candidates (createCandidateFromEmail sqlILike newCandidateId newApplicationId now
                             candidateData db) = candidates db @ [new]
               \<and> email new = e \<and> mobile new = phone candidateData
               \<and> cand_id new = newCandidateId"
proof -
  have "\<forall>c\<in>set (candidates db). email c \<noteq> email (newProfile candidateData e)"
    using assms(2) by (simp add: newProfile_def)
  from createCandidate_fresh_email[OF this, of newCandidateId now]
  obtain new where new:
    "createCandidate newCandidateId now (newProfile candidateData e) db
       = Inr (new, db\<lparr>candidates := candidates db @ [new]\<rparr>)"
    "email new = e" "mobile new = phone candidateData" "cand_id new = newCandidateId"
    by (auto simp: newProfile_def)
  have none: "existingCandidateFor sqlILike candidateData db = None"
    using assms by (rule existingCandidateFor_None)
  have "candidates (createCandidateFromEmail sqlILike newCandidateId newApplicationId now
                             candidateData db) = candidates db @ [new]"
    unfolding createCandidateFromEmail_create_branch[OF none assms(1)] new(1)
    by (simp add: jobStep_candidates)
  with new show ?thesis by blast
qed

text \<open>
  Claim C3, as amended.  When \<open>createCandidateFromEmail\<close> finds an existing candidate, the
  rows with its id get the extracted first name, last name and phone wherever the message
  yields a non-empty value (\<open>orElse\<close>, \<open>orElseNullable\<close>), and keep the existing value only
  where it yields none; their notes become the existing notes, or the empty string, followed
  by the block with the subject and the truncated body of the message, trimmed at both ends.
  The existing notes without their leading white space are a prefix of the new notes.  All
  other rows are unchanged.
\<close>

theorem C3_merge_on_existing_email:
  assumes "existingCandidateFor sqlILike candidateData db = Some existingCandidate"
  shows "candidates (createCandidateFromEmail sqlILike newCandidateId newApplicationId now
                       candidateData db)
         = map (\<lambda>c. if cand_id c = cand_id existingCandidate
                     then c\<lparr>firstName := orElse (firstName' candidateData)
                                                (firstName existingCandidate),
                            lastName := orElse (lastName' candidateData)
                                               (lastName existingCandidate),
                            mobile := orElseNullable (phone candidateData)
                                                      (mobile existingCandidate),
                            notes := Some (mergedNotes existingCandidate candidateData),
                            updatedAt := now\<rparr>
                     else c) (candidates db)
       \<and> mergedNotes existingCandidate candidateData
           = jsTrim (orElse (notes existingCandidate) [] @ newMailHeader
                     @ interpolate (originalSubject candidateData) @ contentLabel
                     @ interpolate (originalBody candidateData))
       \<and> startsWith (mergedNotes existingCandidate candidateData)
            (dropWhile isSpace (orElse (notes existingCandidate) []))"
  unfolding createCandidateFromEmail_candidates_update[OF assms]
  by (simp add: updateCandidate_def mergedNotes_keeps_old) (simp add: mergedNotes_def)

text \<open>A message without name and phone keeps the stored name and mobile.\<close>

theorem C3_merge_on_existing_email_witness:
  "existingCandidateFor ilikeAscii (exampleMessage None None (js ''dana@example.com'') None)
      danaDatabase = Some storedDana
   \<and> map firstName (candidates (createCandidateFromEmail ilikeAscii (js ''c2'') (js ''a2'') 7
         (exampleMessage None None (js ''dana@example.com'') None) danaDatabase)) = [js ''Dana'']
   \<and> map mobile (candidates (createCandidateFromEmail ilikeAscii (js ''c2'') (js ''a2'') 7
         (exampleMessage None None (js ''dana@example.com'') None) danaDatabase))
       = [Some (js ''0501234567'')]"
  using C3_merge_on_existing_email[OF danaExisting[of None None None], of "js ''c2''" "js ''a2''" 7]
        danaExisting[of None None None]
  by (simp add: danaDatabase_def exampleMessage_def orElse_def orElseNullable_def truthy_def)
     (simp add: storedDana_def exampleCandidate_def)

text \<open>
  The claim as stated fails: the stored candidate has a first name, a last name and a
  mobile, and a message with other values for the three overwrites all of them.
\<close>

theorem C3_merge_on_existing_email_counterexample:
  "existingCandidateFor ilikeAscii
      (exampleMessage (Some (js ''Rina'')) (Some (js ''Cohen'')) (js ''dana@example.com'')
         (Some (js ''0529999999''))) danaDatabase = Some storedDana
   \<and> firstName storedDana = js ''Dana''
   \<and> lastName storedDana = js ''Levi''
   \<and> mobile storedDana = Some (js ''0501234567'')
   \<and> map firstName (candidates (createCandidateFromEmail ilikeAscii (js ''c2'') (js ''a2'') 7
         (exampleMessage (Some (js ''Rina'')) (Some (js ''Cohen'')) (js ''dana@example.com'')
            (Some (js ''0529999999''))) danaDatabase)) = [js ''Rina'']
   \<and> map lastName (candidates (createCandidateFromEmail ilikeAscii (js ''c2'') (js ''a2'') 7
         (exampleMessage (Some (js ''Rina'')) (Some (js ''Cohen'')) (js ''dana@example.com'')
            (Some (js ''0529999999''))) danaDatabase)) = [js ''Cohen'']
   \<and> map mobile (candidates (createCandidateFromEmail ilikeAscii (js ''c2'') (js ''a2'') 7
         (exampleMessage (Some (js ''Rina'')) (Some (js ''Cohen'')) (js ''dana@example.com'')
            (Some (js ''0529999999''))) danaDatabase)) = [Some (js ''0529999999'')]"
proof -
  have names: "firstName storedDana = js ''Dana''" "lastName storedDana = js ''Levi''"
    "mobile storedDana = Some (js ''0501234567'')"
    by (simp_all add: storedDana_def exampleCandidate_def)
  have ne: "js ''Rina'' \<noteq> []" "js ''Cohen'' \<noteq> []" "js ''0529999999'' \<noteq> []"
    by (simp_all add: js_def)
  let ?msg = "exampleMessage (Some (js ''Rina'')) (Some (js ''Cohen'')) (js ''dana@example.com'')
         (Some (js ''0529999999''))"
  have c1: "map firstName (candidates (createCandidateFromEmail ilikeAscii (js ''c2'') (js ''a2'') 7
         ?msg danaDatabase)) = [js ''Rina'']"
    unfolding createCandidateFromEmail_candidates_update[OF danaExisting]
    using ne
    by (simp add: updateCandidate_def danaDatabase_def exampleMessage_def orElse_def)
  have c2: "map lastName (candidates (createCandidateFromEmail ilikeAscii (js ''c2'') (js ''a2'') 7
         ?msg danaDatabase)) = [js ''Cohen'']"
    unfolding createCandidateFromEmail_candidates_update[OF danaExisting]
    using ne
    by (simp add: updateCandidate_def danaDatabase_def exampleMessage_def orElse_def)
  have c3: "map mobile (candidates (createCandidateFromEmail ilikeAscii (js ''c2'') (js ''a2'') 7
         ?msg danaDatabase)) = [Some (js ''0529999999'')]"
    unfolding createCandidateFromEmail_candidates_update[OF danaExisting]
    using ne
    by (simp add: updateCandidate_def danaDatabase_def exampleMessage_def orElseNullable_def
          truthy_def)
  show ?thesis
    using danaExisting[of "Some (js ''Rina'')" "Some (js ''Cohen'')" "Some (js ''0529999999'')"]
          names c1 c2 c3
    by (intro conjI)
qed

text \<open>
  Claim C4, as amended.  \<open>createCandidateFromEmail\<close> does not call the identity resolver.
  The candidate it treats as existing is a row of the candidate search for the extracted
  email whose stored email is identical to the extracted one; then the number of profiles
  stays the same.  When no stored candidate has exactly the extracted email, a new profile
  with the extracted email and phone is appended, whatever the stored mobiles are.
\<close>

theorem C4_existing_decided_by_exact_email:
  "(\<forall>c. existingCandidateFor sqlILike candidateData db = Some c \<longrightarrow>
        c \<in> set (candidates db) \<and> Some (email c) = email' candidateData
        \<and> length (candidates (createCandidateFromEmail sqlILike newCandidateId newApplicationId
                                 now candidateData db)) = length (candidates db))
   \<and> (\<forall>e. email' candidateData = Some e \<longrightarrow> (\<forall>c\<in>set (candidates db). email c \<noteq> e) \<longrightarrow>
        (\<exists>new. candidates (createCandidateFromEmail sqlILike newCandidateId newApplicationId
                              now candidateData db) = candidates db @ [new]
              \<and> email new = e \<and> mobile new = phone candidateData
              \<and> cand_id new = newCandidateId))"
proof (intro conjI allI impI)
  fix c assume c: "existingCandidateFor sqlILike candidateData db = Some c"
  from existingCandidateFor_Some[OF c]
  show "c \<in> set (candidates db)" and "Some (email c) = email' candidateData" by auto
  show "length (candidates (createCandidateFromEmail sqlILike newCandidateId newApplicationId
                                 now candidateData db)) = length (candidates db)"
    unfolding createCandidateFromEmail_candidates_update[OF c]
    by (simp add: updateCandidate_def)
next
  fix e assume "email' candidateData = Some e" "\<forall>c\<in>set (candidates db). email c \<noteq> e"
  then show "\<exists>new. candidates (createCandidateFromEmail sqlILike newCandidateId newApplicationId
                              now candidateData db) = candidates db @ [new]
              \<and> email new = e \<and> mobile new = phone candidateData
              \<and> cand_id new = newCandidateId"
    by (rule createCandidateFromEmail_candidates_create)
qed

text \<open>A message whose email differs from the stored one in letter case adds a profile.\<close>

theorem C4_existing_decided_by_exact_email_witness:
  "email' (exampleMessage None None (js ''DANA@example.com'') (Some (js ''0501234567'')))
     = Some (js ''DANA@example.com'')
   \<and> map email (candidates danaDatabase) = [js ''dana@example.com'']
   \<and> length (candidates (createCandidateFromEmail ilikeAscii (js ''c2'') (js ''a2'') 7
         (exampleMessage None None (js ''DANA@example.com'') (Some (js ''0501234567'')))
         danaDatabase)) = 2"
proof -
  have e: "email' (exampleMessage None None (js ''DANA@example.com'') (Some (js ''0501234567'')))
     = Some (js ''DANA@example.com'')"
    by (simp add: exampleMessage_def)
  have d: "\<forall>c\<in>set (candidates danaDatabase). email c \<noteq> js ''DANA@example.com''"
    using danaEmails by (simp add: danaDatabase_def storedDana_def exampleCandidate_def)
  have l: "length (candidates danaDatabase) = 1" by (simp add: danaDatabase_def)
  from C4_existing_decided_by_exact_email[of ilikeAscii
         "exampleMessage None None (js ''DANA@example.com'') (Some (js ''0501234567''))"
         danaDatabase "js ''c2''" "js ''a2''" 7] e d
  obtain new where "candidates (createCandidateFromEmail ilikeAscii (js ''c2'') (js ''a2'') 7
         (exampleMessage None None (js ''DANA@example.com'') (Some (js ''0501234567'')))
         danaDatabase) = candidates danaDatabase @ [new]"
    by blast
  moreover have "map email (candidates danaDatabase) = [js ''dana@example.com'']"
    by (simp add: danaDatabase_def storedDana_def exampleCandidate_def)
  ultimately show ?thesis using e l by simp
qed

text \<open>
  The claim as stated fails.  The stored candidate has the mobile of the message and, up to
  letter case, its email, and the identity resolver returns it for this phone and email; the
  pipeline creates a second profile.
\<close>

theorem C4_existing_decided_by_exact_email_counterexample:
  "findCandidateByContactInfo asciiLower (candidates danaDatabase)
      (Some (js ''0501234567'')) (Some (js ''DANA@example.com'')) None = Some storedDana
   \<and> map email (candidates (createCandidateFromEmail ilikeAscii (js ''c2'') (js ''a2'') 7
         (exampleMessage None None (js ''DANA@example.com'') (Some (js ''0501234567'')))
         danaDatabase))
       = [js ''dana@example.com'', js ''DANA@example.com'']"
proof -
  have e: "email' (exampleMessage None None (js ''DANA@example.com'') (Some (js ''0501234567'')))
     = Some (js ''DANA@example.com'')"
    by (simp add: exampleMessage_def)
  have d: "\<forall>c\<in>set (candidates danaDatabase). email c \<noteq> js ''DANA@example.com''"
    using danaEmails by (simp add: danaDatabase_def storedDana_def exampleCandidate_def)
  from createCandidateFromEmail_candidates_create[OF e d, of ilikeAscii "js ''c2''" "js ''a2''" 7]
  obtain new where new: "candidates (createCandidateFromEmail ilikeAscii (js ''c2'') (js ''a2'') 7
         (exampleMessage None None (js ''DANA@example.com'') (Some (js ''0501234567'')))
         danaDatabase) = candidates danaDatabase @ [new]" "email new = js ''DANA@example.com''"
    by blast
  have f: "findCandidateByContactInfo asciiLower (candidates danaDatabase)
      (Some (js ''0501234567'')) (Some (js ''DANA@example.com'')) None = Some storedDana"
    by (simp add: findCandidateByContactInfo_find storedMatch_def danaDatabase_def storedDana_def
          exampleCandidate_def storedMobileNormalized_def sql_replace_def js_simps ascii_simps
          normalizePhone_def isSpace_def substring_from_def js_def)
  show ?thesis
    unfolding new by (simp add: f new(2)) (simp add: danaDatabase_def storedDana_def exampleCandidate_def)
qed

section \<open>Indexed search\<close>

lemma splitChar_chars: "w \<in> set (splitChar sep s) \<Longrightarrow> set w \<subseteq> set s"
proof (induction s arbitrary: w)
  case Nil then show ?case by simp
next
  case (Cons c cs)
  show ?case
  proof (cases "c = sep")
    case True
    with Cons.prems have "w = [] \<or> w \<in> set (splitChar sep cs)" by auto
    with Cons.IH show ?thesis by auto
  next
    case False
    show ?thesis
    proof (cases "splitChar sep cs")
      case Nil
      with False Cons.prems show ?thesis by auto
    next
      case (Cons v vs)
      with False Cons.prems have "w = c # v \<or> w \<in> set vs" by auto
      moreover have "set v \<subseteq> set cs" using Cons.IH[of v] Cons by simp
      moreover have "\<And>u. u \<in> set vs \<Longrightarrow> set u \<subseteq> set cs" using Cons.IH Cons by simp
      ultimately show ?thesis by auto
    qed
  qed
qed

lemma jsTrim_all_space: "\<forall>c\<in>set w. isSpace c \<Longrightarrow> jsTrim w = []"
proof -
  assume "\<forall>c\<in>set w. isSpace c"
  then have d: "dropWhile isSpace w = []" by (induction w) auto
  show ?thesis unfolding jsTrim_def d by simp
qed

lemma keywordList_whitespace: "\<forall>c\<in>set keywords. isSpace c \<Longrightarrow> keywordList keywords = []"
proof -
  assume a: "\<forall>c\<in>set keywords. isSpace c"
  have "\<And>w. w \<in> set (splitChar 32 keywords) \<Longrightarrow> jsTrim w = []"
    using a splitChar_chars[of _ 32 "keywords"] by (intro jsTrim_all_space) blast
  then show ?thesis by (simp add: keywordList_def filter_empty_conv)
qed

text \<open>
  Claim C9.  When the query string splits into an empty list of terms,
  \<open>searchCandidatesByKeywords\<close> returns the empty list and the total 0 and sends no query to
  the database; and a query string of white space only (the empty string among them) splits
  into an empty list of terms.
\<close>

theorem C9_empty_terms_no_query:
  "(keywordList keywords = [] \<longrightarrow>
      searchCandidatesByKeywords to_tsquery tsMatch ts_rank keywords limit offset db
        = (Inr ([], 0), []))
   \<and> ((\<forall>c\<in>set keywords. isSpace c) \<longrightarrow> keywordList keywords = [])"
  by (simp add: searchCandidatesByKeywords_def keywordList_whitespace)

text \<open>The query string of a space and a tabulator.\<close>

theorem C9_empty_terms_no_query_witness:
  "isSpace 32 \<and> isSpace 9
   \<and> keywordList (js '' '' @ [9]) = []
   \<and> searchCandidatesByKeywords (\<lambda>s. Some s) (\<lambda>content q. True) (\<lambda>content q. 0)
        (js '' '' @ [9]) 50 0 danaDatabase = (Inr ([], 0), [])"
proof -
  have w: "\<forall>c\<in>set (js '' '' @ [9]). isSpace c" by (simp add: js_def isSpace_def)
  from C9_empty_terms_no_query[of "js '' '' @ [9]" "\<lambda>s. Some s" "\<lambda>content q. True"
         "\<lambda>content q. 0" 50 0 danaDatabase] w
  have "keywordList (js '' '' @ [9]) = []"
    and "searchCandidatesByKeywords (\<lambda>s. Some s) (\<lambda>content q. True) (\<lambda>content q. 0)
        (js '' '' @ [9]) 50 0 danaDatabase = (Inr ([], 0), [])"
    by blast+
  then show ?thesis by (simp add: isSpace_def)
qed

section \<open>Naive search\<close>

lemma startsWith_prefix: "startsWith t p = prefix p t"
  by (induction t p rule: startsWith.induct) auto

lemma str_includes_sublist: "str_includes t p = sublist p t"
  by (induction t) (auto simp: startsWith_prefix sublist_Cons_right)

lemma positiveLoop_result:
  "positiveLoop contains ks (h, m) = (h \<or> (\<exists>k\<in>set ks. contains k), m @ filter contains ks)"
  by (induction ks arbitrary: h m) auto

lemma negativeLoop_result: "negativeLoop contains ks = (\<forall>k\<in>set ks. \<not> contains k)"
  by (induction ks) auto

lemma orElse_simps: "orElse (Some s) [] = s" "orElse v [] = (case v of None \<Rightarrow> [] | Some s \<Rightarrow> s)"
  by (auto simp: orElse_def split: option.splits)

lemma textContainsKeyword_substring:
  assumes "keyword \<noteq> []" "toLowerCase [] = []" "\<forall>k. k \<noteq> [] \<longrightarrow> toLowerCase k \<noteq> []"
  shows "textContainsKeyword toLowerCase (Some text) keyword
         = caseInsensitiveSubstring toLowerCase keyword text"
  using assms
  by (auto simp: textContainsKeyword_def caseInsensitiveSubstring_def str_includes_sublist)

lemma concat_map_if: "concat (map (\<lambda>c. if P c then [g c] else []) cs) = map g (filter P cs)"
  by (induction cs) auto

lemma searchCVs_unfold:
  "searchCVs toLowerCase extractTextFromCVFile positiveKeywords negativeKeywords includeNotes db =
     concat (map (\<lambda>candidate.
        if (positiveKeywords = []
            \<or> (\<exists>k\<in>set positiveKeywords.
                  textContainsKeyword toLowerCase
                    (Some (candidateText extractTextFromCVFile includeNotes db candidate)) k))
           \<and> (\<forall>k\<in>set negativeKeywords.
                  \<not> textContainsKeyword toLowerCase
                      (Some (candidateText extractTextFromCVFile includeNotes db candidate)) k)
        then [toSearchResult candidate
                (candidateText extractTextFromCVFile includeNotes db candidate)
                (filter (textContainsKeyword toLowerCase
                           (Some (candidateText extractTextFromCVFile includeNotes db candidate)))
                        positiveKeywords)]
        else []) (sql_orderBy_desc createdAt (candidates db)))"
  unfolding searchCVs_def Let_def
  by (intro arg_cong[where f=concat] map_cong refl)
     (auto simp: positiveLoop_result negativeLoop_result toSearchResult_def orElse_simps)

text \<open>
  Claim C5, as amended.  When no keyword is the empty string, the result of \<open>searchCVs\<close> is,
  in the order of the candidates (most recent first), one result for each candidate such
  that the positive keywords are empty or one of them is a case-insensitive substring of the
  candidate's searchable text, and no negative keyword is one; and the matched keywords of a
  result are exactly the positive keywords that are case-insensitive substrings of the
  text.  The lower-casing function maps the empty string to itself and no other string to
  it.
\<close>

theorem C5_searchCVs_keyword_filter:
  assumes "[] \<notin> set positiveKeywords" and "[] \<notin> set negativeKeywords"
    and "toLowerCase [] = []" and "\<forall>k. k \<noteq> [] \<longrightarrow> toLowerCase k \<noteq> []"
  shows "searchCVs toLowerCase extractTextFromCVFile positiveKeywords negativeKeywords
           includeNotes db
         = map (\<lambda>c. toSearchResult c (candidateText extractTextFromCVFile includeNotes db c)
                      (filter (\<lambda>k. caseInsensitiveSubstring toLowerCase k
                                      (candidateText extractTextFromCVFile includeNotes db c))
                              positiveKeywords))
             (filter (\<lambda>c. (positiveKeywords = []
                            \<or> (\<exists>k\<in>set positiveKeywords.
                                  caseInsensitiveSubstring toLowerCase k
                                    (candidateText extractTextFromCVFile includeNotes db c)))
                         \<and> (\<forall>k\<in>set negativeKeywords.
                                \<not> caseInsensitiveSubstring toLowerCase k
                                    (candidateText extractTextFromCVFile includeNotes db c)))
                     (sql_orderBy_desc createdAt (candidates db)))"
proof -
  have pos: "\<And>k t. k \<in> set positiveKeywords \<Longrightarrow>
               textContainsKeyword toLowerCase (Some t) k = caseInsensitiveSubstring toLowerCase k t"
    using assms(1,3,4) by (intro textContainsKeyword_substring) auto
  have neg: "\<And>k t. k \<in> set negativeKeywords \<Longrightarrow>
               textContainsKeyword toLowerCase (Some t) k = caseInsensitiveSubstring toLowerCase k t"
    using assms(2,3,4) by (intro textContainsKeyword_substring) auto
  have f: "\<And>t. filter (textContainsKeyword toLowerCase (Some t)) positiveKeywords
             = filter (\<lambda>k. caseInsensitiveSubstring toLowerCase k t) positiveKeywords"
    by (rule filter_cong) (auto simp: pos)
  have p: "\<And>t. (\<exists>k\<in>set positiveKeywords. textContainsKeyword toLowerCase (Some t) k)
             = (\<exists>k\<in>set positiveKeywords. caseInsensitiveSubstring toLowerCase k t)"
    by (auto simp: pos)
  have n: "\<And>t. (\<forall>k\<in>set negativeKeywords. \<not> textContainsKeyword toLowerCase (Some t) k)
             = (\<forall>k\<in>set negativeKeywords. \<not> caseInsensitiveSubstring toLowerCase k t)"
    by (auto simp: neg)
  show ?thesis
    unfolding searchCVs_unfold f p n by (rule concat_map_if)
qed

lemma asciiLower_nonempty: "\<forall>k. k \<noteq> [] \<longrightarrow> asciiLower k \<noteq> []"
  by (simp add: asciiLower_def)

lemma javaTexts:
  "candidateText (\<lambda>p. []) False javaDatabase
     ((exampleCandidate (js ''a'') (js ''a@example.com'') None None 10)
           \<lparr>profession := Some (js ''Junior Java developer'')\<rparr>)
     = js ''Dana Levi Junior Java developer''"
  "candidateText (\<lambda>p. []) False javaDatabase
     ((exampleCandidate (js ''b'') (js ''b@example.com'') None None 20)
           \<lparr>profession := Some (js ''JAVA developer'')\<rparr>)
     = js ''Dana Levi JAVA developer''"
  by (simp_all add: candidateText_def exampleCandidate_def orElse_def appendIfPresent_def
        jsTrim_def isSpace_def js_def)

lemma javaSubstrings:
  "caseInsensitiveSubstring asciiLower (js ''Java'') (js ''Dana Levi Junior Java developer'')"
  "caseInsensitiveSubstring asciiLower (js ''Junior'') (js ''Dana Levi Junior Java developer'')"
  "caseInsensitiveSubstring asciiLower (js ''Java'') (js ''Dana Levi JAVA developer'')"
  "\<not> caseInsensitiveSubstring asciiLower (js ''Junior'') (js ''Dana Levi JAVA developer'')"
  by (simp_all add: caseInsensitiveSubstring_def asciiLower_def js_def sublist_code prefix_code)

lemma javaOrder:
  "sql_orderBy_desc createdAt (candidates javaDatabase)
     = [(exampleCandidate (js ''b'') (js ''b@example.com'') None None 20)
           \<lparr>profession := Some (js ''JAVA developer'')\<rparr>,
        (exampleCandidate (js ''a'') (js ''a@example.com'') None None 10)
           \<lparr>profession := Some (js ''Junior Java developer'')\<rparr>]"
  by (simp add: sql_orderBy_desc_def javaDatabase_def exampleCandidate_def)

text \<open>
  The example of the specification: of a junior Java developer and a Java developer, the
  search for Java without Junior returns the second.
\<close>

theorem C5_searchCVs_keyword_filter_witness:
  "[] \<notin> set [js ''Java''] \<and> [] \<notin> set [js ''Junior''] \<and> asciiLower [] = []
   \<and> map sr_candidateId (searchCVs asciiLower (\<lambda>p. []) [js ''Java''] [js ''Junior''] False
                            javaDatabase) = [js ''b'']
   \<and> map matchedKeywords (searchCVs asciiLower (\<lambda>p. []) [js ''Java''] [js ''Junior''] False
                             javaDatabase) = [[js ''Java'']]"
proof -
  have h1: "[] \<notin> set [js ''Java'']" and h2: "[] \<notin> set [js ''Junior'']"
    by (simp_all add: js_def)
  have h3: "asciiLower [] = []" by (simp add: asciiLower_def)
  note eq = C5_searchCVs_keyword_filter[OF h1 h2 h3 asciiLower_nonempty,
              of "\<lambda>p. []" False javaDatabase]
  have r: "searchCVs asciiLower (\<lambda>p. []) [js ''Java''] [js ''Junior''] False javaDatabase
           = [toSearchResult
                ((exampleCandidate (js ''b'') (js ''b@example.com'') None None 20)
                   \<lparr>profession := Some (js ''JAVA developer'')\<rparr>)
                (js ''Dana Levi JAVA developer'') [js ''Java'']]"
    unfolding eq javaOrder by (simp add: javaTexts javaSubstrings)
  show ?thesis
    using h1 h2 h3
    unfolding r by (simp add: toSearchResult_def exampleCandidate_def)
qed

text \<open>
  The claim as stated fails for the empty keyword.  It is a substring of every text, but
  \<open>textContainsKeyword\<close> never finds it: as the only positive keyword it excludes the stored
  candidate, and as the only negative keyword it excludes nobody.
\<close>

theorem C5_searchCVs_keyword_filter_counterexample:
  "caseInsensitiveSubstring asciiLower [] (candidateText (\<lambda>p. []) False danaDatabase storedDana)
   \<and> searchCVs asciiLower (\<lambda>p. []) [[]] [] False danaDatabase = []
   \<and> map sr_candidateId (searchCVs asciiLower (\<lambda>p. []) [] [[]] False danaDatabase) = [js ''c1'']"
  by (simp add: caseInsensitiveSubstring_def asciiLower_def searchCVs_unfold
        textContainsKeyword_def sql_orderBy_desc_def danaDatabase_def toSearchResult_def
        storedDana_def exampleCandidate_def)

section \<open>Field extraction\<close>

text \<open>
  A capture that is set when a match starts is set when it ends, and a group that takes part
  in every match, by the form of the expression, is set at the end of every match.
\<close>

lemma starIter_preserves:
  assumes step: "\<And>st st'. st' \<in> set (step st) \<Longrightarrow> P st \<Longrightarrow> P st'"
  shows "st' \<in> set (starIter step fuel st) \<Longrightarrow> P st \<Longrightarrow> P st'"
proof (induction fuel arbitrary: st)
  case 0
  then show ?case by simp
next
  case (Suc fuel)
  from Suc.prems(1) consider (same) "st' = st"
    | (iter) mid where "mid \<in> set (step st)" "st' \<in> set (starIter step fuel mid)"
    by (auto split: if_splits)
  then show ?case
  proof cases
    case same then show ?thesis using Suc.prems(2) by simp
  next
    case iter
    from step[OF iter(1) Suc.prems(2)] have "P mid" .
    from Suc.IH[OF iter(2) this] show ?thesis .
  qed
qed

lemma matches_keeps_capture:
  "st' \<in> set (matches r st) \<Longrightarrow> snd (snd st) i \<noteq> None \<Longrightarrow> snd (snd st') i \<noteq> None"
proof (induction r arbitrary: st st')
  case Eps then show ?case by simp
next
  case (Class P) then show ?case by (auto split: list.splits if_splits)
next
  case (Seq a b)
  from Seq.prems(1) obtain mid where "mid \<in> set (matches a st)" "st' \<in> set (matches b mid)"
    by auto
  with Seq.IH Seq.prems(2) show ?case by blast
next
  case (Alt a b)
  from Alt.prems(1) have "st' \<in> set (matches a st) \<or> st' \<in> set (matches b st)" by simp
  with Alt.IH Alt.prems(2) show ?case by blast
next
  case (Star r)
  have "st' \<in> set (starIter (matches r) (length (fst (snd st))) st)" using Star.prems(1) by simp
  from starIter_preserves[where P="\<lambda>s. snd (snd s) i \<noteq> None", OF _ this Star.prems(2)]
  show ?case using Star.IH by blast
next
  case (Group j r)
  from Group.prems(1) obtain mid where mid: "mid \<in> set (matches r st)"
    and st': "st' = (fst mid, fst (snd mid),
                     (snd (snd mid))
                       (j := Some (take (length (fst (snd st)) - length (fst (snd mid)))
                                        (fst (snd st)))))"
    by auto
  from Group.IH[OF mid Group.prems(2)] show ?case by (simp add: st')
next
  case WordBoundary then show ?case by (auto split: if_splits)
qed

lemma matches_alwaysCaptures:
  "alwaysCaptures r i \<Longrightarrow> st' \<in> set (matches r st) \<Longrightarrow> snd (snd st') i \<noteq> None"
proof (induction r arbitrary: st st')
  case (Seq a b)
  from Seq.prems(2) obtain mid where mid: "mid \<in> set (matches a st)" "st' \<in> set (matches b mid)"
    by auto
  from Seq.prems(1) consider "alwaysCaptures a i" | "alwaysCaptures b i" by auto
  then show ?case
  proof cases
    case 1
    from Seq.IH(1)[OF 1 mid(1)] have "snd (snd mid) i \<noteq> None" .
    from matches_keeps_capture[OF mid(2) this] show ?thesis .
  next
    case 2
    from Seq.IH(2)[OF 2 mid(2)] show ?thesis .
  qed
next
  case (Alt a b)
  from Alt.prems(2) have "st' \<in> set (matches a st) \<or> st' \<in> set (matches b st)" by simp
  moreover from Alt.prems(1) have "alwaysCaptures a i" "alwaysCaptures b i" by simp_all
  ultimately show ?case using Alt.IH by blast
next
  case (Group j r)
  from Group.prems(2) obtain mid where mid: "mid \<in> set (matches r st)"
    and st': "st' = (fst mid, fst (snd mid),
                     (snd (snd mid))
                       (j := Some (take (length (fst (snd st)) - length (fst (snd mid)))
                                        (fst (snd st)))))"
    by auto
  show ?case
  proof (cases "j = i")
    case True then show ?thesis by (simp add: st')
  next
    case False
    with Group.prems(1) have "alwaysCaptures r i" by simp
    from Group.IH[OF this mid] show ?thesis using False by (simp add: st')
  qed
qed simp_all

lemma matchAt_alwaysCaptures:
  assumes "alwaysCaptures r i" "matchAt r prev s = Some m"
  shows "groups m i \<noteq> None"
proof -
  from assms(2) obtain st' rest where ms: "matches r (prev, s, \<lambda>i. None) = st' # rest"
    and m: "groups m = snd (snd st')"
    unfolding matchAt_def by (auto split: list.splits)
  from ms have "st' \<in> set (matches r (prev, s, \<lambda>i. None))" by simp
  from matches_alwaysCaptures[OF assms(1) this] show ?thesis by (simp add: m)
qed

lemma searchFrom_alwaysCaptures:
  "alwaysCaptures r i \<Longrightarrow> searchFrom r prev s = Some m \<Longrightarrow> groups m i \<noteq> None"
  by (induction s arbitrary: prev)
     (auto split: option.splits dest: matchAt_alwaysCaptures)

lemma str_match_alwaysCaptures:
  "alwaysCaptures r i \<Longrightarrow> str_match s r = Some m \<Longrightarrow> groups m i \<noteq> None"
  unfolding str_match_def by (rule searchFrom_alwaysCaptures)

lemma pattern_captures:
  "alwaysCaptures streetPattern 1" "alwaysCaptures streetPattern 2"
  "alwaysCaptures zipPattern 1" "alwaysCaptures nationalIdPattern 1"
  by (simp_all add: streetPattern_def zipPattern_def nationalIdPattern_def)

lemma extractStreet_returns: "\<exists>r. extractStreet u result = Inr r"
  unfolding extractStreet_def
  using str_match_alwaysCaptures[OF pattern_captures(1), of u]
        str_match_alwaysCaptures[OF pattern_captures(2), of u]
  by (auto split: option.splits)

lemma extractZipCode_returns: "\<exists>r. extractZipCode u result = Inr r"
  unfolding extractZipCode_def
  using str_match_alwaysCaptures[OF pattern_captures(3), of u]
  by (auto split: option.splits)

lemma extractNationalId_returns: "\<exists>r. extractNationalId u result = Inr r"
  unfolding extractNationalId_def
  using str_match_alwaysCaptures[OF pattern_captures(4), of u]
  by (auto split: option.splits)

lemma extractDataFromText_returns:
  "\<exists>result. extractDataFromText toLowerCase parseInt text = Inr result"
proof -
  define u where "u = substring text 0 ((3 * length text) div 10)"
  define r1 :: "'a extractedData"
    where "r1 = extractCity u text (extractPhone u (extractMobile u (extractEmail u emptyResult)))"
  obtain r2 where s: "extractStreet u r1 = Inr r2" using extractStreet_returns by blast
  obtain r3 where z: "extractZipCode u r2 = Inr r3" using extractZipCode_returns by blast
  define r4 where "r4 = extractExperience parseInt text
                          (extractProfession toLowerCase text (extractName u r3))"
  obtain r5 where n: "extractNationalId u r4 = Inr r5" using extractNationalId_returns by blast
  have "extractDataFromText toLowerCase parseInt text
          = Inr (extractAchievements toLowerCase text
                   (extractPhone2 u
                      (extractDrivingLicense text
                         (extractMaritalStatus toLowerCase text
                            (extractGender toLowerCase text r5)))))"
    unfolding extractDataFromText_def Let_def u_def[symmetric] r1_def[symmetric]
    by (simp add: s z r4_def[symmetric] n)
  then show ?thesis by blast
qed

lemma extractDataFromText_no_match:
  assumes "noHeuristicMatches toLowerCase text"
  shows "extractDataFromText toLowerCase parseInt text = Inr emptyResult"
  using assms
  unfolding extractDataFromText_def noHeuristicMatches_def Let_def
  by (simp add: extractEmail_def extractMobile_def extractPhone_def extractCity_def
        extractStreet_def extractZipCode_def extractName_def extractProfession_def
        extractExperience_def extractNationalId_def extractGender_def
        extractMaritalStatus_def extractDrivingLicense_def extractPhone2_def
        extractAchievements_def)

lemmas regex_defs =
  emailPattern_def mobilePattern_def phonePattern_def streetPattern_def zipPattern_def
  namePattern_def namePrefixPattern_def experiencePattern_def nationalIdPattern_def
  licensePattern_def phonePattern2_def
  chr_def chrI_def oneOrMore_def optional_def lit_def litI_def digit_def whitespace_def letter_def
  upperLetter_def lowerLetter_def hebrew_def dashOrSpace_def quoteChar_def emailChar_def
  canonicalize_def isWordChar_def

lemmas keyword_defs =
  israeliCities_def professionKeywords_def genderKeywords_def maritalKeywords_def
  achievementKeywords_def

lemma exactly_unfold:
  "exactly 1 r = r" "exactly 2 r = Seq r r" "exactly 5 r = Seq r (Seq r (Seq r (Seq r r)))"
  "exactly 7 r = Seq r (Seq r (Seq r (Seq r (Seq r (Seq r r)))))"
  "exactly 8 r = Seq r (Seq r (Seq r (Seq r (Seq r (Seq r (Seq r r))))))"
  "exactly 9 r = Seq r (Seq r (Seq r (Seq r (Seq r (Seq r (Seq r (Seq r r)))))))"
  by (simp_all add: eval_nat_numeral)

lemma no_match_empty:
  assumes "toLowerCase [] = []" "\<forall>k. k \<noteq> [] \<longrightarrow> toLowerCase k \<noteq> []"
  shows "noHeuristicMatches toLowerCase []"
proof -
  have k: "\<And>ks. [] \<notin> set ks \<Longrightarrow>
             List.find (\<lambda>k. str_includes (toLowerCase []) (toLowerCase k)) ks = None"
  proof -
    fix ks :: "jsstring list" assume n: "[] \<notin> set ks"
    have "\<And>x. x \<in> set ks \<Longrightarrow> toLowerCase x \<noteq> []"
      using n assms(2) by metis
    then show "List.find (\<lambda>k. str_includes (toLowerCase []) (toLowerCase k)) ks = None"
      by (simp add: find_None_iff assms(1))
  qed
  have c: "List.find (\<lambda>city. city = []) israeliCities = None"
    by (simp add: israeliCities_def)
  have r: "str_match_global [] emailPattern = None" "str_match_global [] mobilePattern = None"
    "str_match_global [] phonePattern = None" "str_match [] streetPattern = None"
    "str_match [] zipPattern = None" "str_match_global [] namePattern = None"
    "str_match [] experiencePattern = None" "str_match [] nationalIdPattern = None"
    "str_match [] licensePattern = None" "str_match_global [] phonePattern2 = None"
    by (simp_all add: str_match_global_def str_match_def matchAt_def regex_defs exactly_unfold js_def)
  have e: "[] \<notin> set professionKeywords" "[] \<notin> set genderKeywords"
    "[] \<notin> set maritalKeywords" "[] \<notin> set achievementKeywords"
    by (simp_all add: keyword_defs)
  show ?thesis
    unfolding noHeuristicMatches_def Let_def
    by (simp add: substring_def c r k[OF e(1)] k[OF e(2)] k[OF e(3)] k[OF e(4)])
qed

lemma garbage_window: "substring binaryGarbage 0 ((3 * length binaryGarbage) div 10) = [0, 65533, 3]"
  by (simp add: substring_def binaryGarbage_def)

lemma garbage_lower: "asciiLower binaryGarbage = binaryGarbage"
  by (simp add: asciiLower_def binaryGarbage_def)

lemma garbage_regex_window:
  "str_match_global [0, 65533, 3] emailPattern = None"
  "str_match_global [0, 65533, 3] mobilePattern = None"
  "str_match_global [0, 65533, 3] phonePattern = None"
  "str_match [0, 65533, 3] streetPattern = None"
  "str_match [0, 65533, 3] zipPattern = None"
  "str_match_global [0, 65533, 3] namePattern = None"
  "str_match [0, 65533, 3] nationalIdPattern = None"
  "str_match_global [0, 65533, 3] phonePattern2 = None"
  by (simp_all add: str_match_global_def str_match_def matchAt_def regex_defs exactly_unfold
        isSpace_def js_def)

lemma garbage_regex_text:
  "str_match binaryGarbage experiencePattern = None"
  "str_match binaryGarbage licensePattern = None"
  by (simp_all add: binaryGarbage_def str_match_def matchAt_def regex_defs exactly_unfold
        isSpace_def js_def)

lemma garbage_keywords:
  "List.find (\<lambda>city. str_includes [0, 65533, 3] city \<or> str_includes binaryGarbage city)
     israeliCities = None"
  "List.find (\<lambda>k. str_includes binaryGarbage (asciiLower k)) professionKeywords = None"
  "List.find (\<lambda>k. str_includes binaryGarbage (asciiLower k)) genderKeywords = None"
  "List.find (\<lambda>k. str_includes binaryGarbage (asciiLower k)) maritalKeywords = None"
  "List.find (\<lambda>k. str_includes binaryGarbage (asciiLower k)) achievementKeywords = None"
  by (simp_all add: binaryGarbage_def keyword_defs asciiLower_def)

lemma no_match_garbage: "noHeuristicMatches asciiLower binaryGarbage"
  unfolding noHeuristicMatches_def Let_def garbage_window garbage_lower
  by (simp only: garbage_regex_window garbage_regex_text garbage_keywords simp_thms)

text \<open>
  Claim C8.  \<open>extractDataFromText\<close> returns a record for every text: no access to a capture
  fails.  When no heuristic matches, the record has every string field empty and the
  experience null; this is so for the empty text, for every lower-casing function that maps
  the empty string to itself and no other string to it.
\<close>

theorem C8_extractDataFromText_total:
  "(\<exists>result. extractDataFromText toLowerCase parseInt text = Inr result)
   \<and> (noHeuristicMatches toLowerCase text \<longrightarrow>
        extractDataFromText toLowerCase parseInt text = Inr emptyResult)
   \<and> (toLowerCase [] = [] \<and> (\<forall>k. k \<noteq> [] \<longrightarrow> toLowerCase k \<noteq> []) \<longrightarrow>
        extractDataFromText toLowerCase parseInt [] = Inr emptyResult)"
  using extractDataFromText_returns[of toLowerCase parseInt "text"]
        extractDataFromText_no_match[of toLowerCase "text" parseInt]
        extractDataFromText_no_match[OF no_match_empty, of toLowerCase parseInt]
  by blast

text \<open>No heuristic matches the text of binary garbage, and the result is the empty record.\<close>

theorem C8_extractDataFromText_total_witness:
  "noHeuristicMatches asciiLower binaryGarbage
   \<and> extractDataFromText asciiLower (\<lambda>digits. digits) binaryGarbage = Inr emptyResult
   \<and> extractDataFromText asciiLower (\<lambda>digits. digits) [] = Inr emptyResult"
proof -
  have l: "asciiLower [] = []" "\<forall>k. k \<noteq> [] \<longrightarrow> asciiLower k \<noteq> []"
    by (simp_all add: asciiLower_def)
  from C8_extractDataFromText_total[of asciiLower "\<lambda>digits. digits" binaryGarbage]
       no_match_garbage l
  show ?thesis by blast
qed

end
